theory Spec2Isabelle
  imports
    Main
    "HOL-Library.Word"
    "HOL-Library.Multiset"
    "HOL-Library.Signed_Division"
    "HOL-Library.Product_Lexorder"
begin

unbundle bit_operations_syntax

section \<open>Machine integers and C operators\<close>

text \<open>
  \<open>gint\<close> and \<open>guint\<close> are 32 bits wide, \<open>guint16\<close> is 16 bits wide.  Arithmetic on
  words wraps around; the signed reading of a \<open>gint\<close> is \<open>sint\<close>, and the C relations
  \<open><\<close>, \<open>>\<close> on \<open>gint\<close> are the signed word relations.
\<close>

type_synonym gint = "32 word"
type_synonym guint = "32 word"
type_synonym guint16 = "16 word"
type_synonym XID = nat

text \<open>The macros \<open>MAX\<close>, \<open>MIN\<close> and \<open>CLAMP\<close> of GLib on \<open>gint\<close>.\<close>

definition G_MAX :: "gint \<Rightarrow> gint \<Rightarrow> gint" where
  "G_MAX a b = (if b <s a then a else b)"

definition G_MIN :: "gint \<Rightarrow> gint \<Rightarrow> gint" where
  "G_MIN a b = (if a <s b then a else b)"

definition G_CLAMP :: "gint \<Rightarrow> gint \<Rightarrow> gint \<Rightarrow> gint" where
  "G_CLAMP v low high = (if high <s v then high else if v <s low then low else v)"

text \<open>C division of two \<open>gint\<close>: the quotient is truncated towards zero.\<close>

definition c_div :: "gint \<Rightarrow> gint \<Rightarrow> gint" where
  "c_div a b = word_of_int (sint a sdiv sint b)"

record GdkRectangle =
  rect_x :: gint
  rect_y :: gint
  rect_width :: gint
  rect_height :: gint

section \<open>Monitor topology (gdk/x11/gdkscreen-x11.c)\<close>

text \<open>\<open>struct _GdkX11Monitor\<close>.  A \<open>char *\<close> that may be \<open>NULL\<close> is a \<open>string option\<close>.\<close>

record GdkX11Monitor =
  geometry :: GdkRectangle
  mon_output :: XID
  width_mm :: gint
  height_mm :: gint
  output_name :: "string option"
  manufacturer :: "string option"

text \<open>The part of \<open>GdkX11Screen\<close> that discovery writes; \<open>n_monitors\<close> is the length of
  \<open>monitors\<close>.\<close>

record GdkX11Screen =
  monitors :: "GdkX11Monitor list"
  primary_monitor :: nat

text \<open>The X constant \<open>None\<close>.\<close>

definition X_None :: XID where
  "X_None = 0"

definition init_monitor_geometry :: "gint \<Rightarrow> gint \<Rightarrow> gint \<Rightarrow> gint \<Rightarrow> GdkX11Monitor" where
  "init_monitor_geometry x y w h =
     \<lparr>geometry = \<lparr>rect_x = x, rect_y = y, rect_width = w, rect_height = h\<rparr>,
      mon_output = X_None, width_mm = - 1, height_mm = - 1,
      output_name = None, manufacturer = None\<rparr>"

text \<open>\<open>monitor_compare_function\<close>: the result is a C \<open>int\<close>; the subtractions are those of
  the source, on 32-bit values.\<close>

definition monitor_compare_function :: "GdkX11Monitor \<Rightarrow> GdkX11Monitor \<Rightarrow> gint" where
  "monitor_compare_function monitor1 monitor2 =
     (if rect_x (geometry monitor1) \<noteq> rect_x (geometry monitor2)
      then rect_x (geometry monitor1) - rect_x (geometry monitor2)
      else if rect_y (geometry monitor1) \<noteq> rect_y (geometry monitor2)
      then rect_y (geometry monitor1) - rect_y (geometry monitor2)
      else if rect_height (geometry monitor1) \<noteq> rect_height (geometry monitor2)
      then - (rect_height (geometry monitor1) - rect_height (geometry monitor2))
      else if rect_width (geometry monitor1) \<noteq> rect_width (geometry monitor2)
      then - (rect_width (geometry monitor1) - rect_width (geometry monitor2))
      else 0)"

text \<open>What \<open>g_array_sort\<close> (GLib, outside this repository) promises for an array and a
  comparator: the result holds the same elements, and no element is followed by one that
  the comparator puts strictly before it.  The sorting function itself is a parameter
  \<open>srt\<close> of discovery.\<close>

definition sorted_by_compare :: "GdkX11Monitor list \<Rightarrow> bool" where
  "sorted_by_compare ms = sorted_wrt (\<lambda>a b. monitor_compare_function a b \<le>s 0) ms"

definition g_array_sort_ok ::
  "(GdkX11Monitor list \<Rightarrow> GdkX11Monitor list) \<Rightarrow> GdkX11Monitor list \<Rightarrow> bool" where
  "g_array_sort_ok srt ms = (mset (srt ms) = mset ms \<and> sorted_by_compare (srt ms))"

text \<open>An insertion sort with the comparator, to run discovery on concrete inputs.\<close>

fun insert_monitor :: "GdkX11Monitor \<Rightarrow> GdkX11Monitor list \<Rightarrow> GdkX11Monitor list" where
  "insert_monitor m [] = [m]"
| "insert_monitor m (n # ns) =
     (if monitor_compare_function m n \<le>s 0 then m # n # ns else n # insert_monitor m ns)"

fun insertion_sort :: "GdkX11Monitor list \<Rightarrow> GdkX11Monitor list" where
  "insertion_sort [] = []"
| "insertion_sort (m # ms) = insert_monitor m (insertion_sort ms)"

subsection \<open>What the X server reports\<close>

text \<open>What \<open>XRRGetCrtcInfo\<close> returns of a CRTC.  The values are those of the RandR
  protocol: a position is a signed and a size an unsigned 16-bit number; the fields of
  the C structure, an \<open>int\<close> and an \<open>unsigned int\<close>, hold them widened.\<close>

record XRRCrtcInfo =
  crtc_x :: "16 word"
  crtc_y :: "16 word"
  crtc_width :: "16 word"
  crtc_height :: "16 word"

datatype Connection = RR_Connected | RR_Disconnected | RR_UnknownConnection

text \<open>One entry of \<open>resources->outputs\<close> with its \<open>XRROutputInfo\<close>; \<open>crtc\<close> is \<open>None\<close>
  when \<open>output->crtc\<close> is 0, else what \<open>XRRGetCrtcInfo\<close> returns for it.\<close>

record XRROutputInfo =
  out_id :: XID
  out_name :: string
  connection :: Connection
  crtc :: "XRRCrtcInfo option"
  mm_width :: gint
  mm_height :: gint

text \<open>Everything discovery reads from the build configuration and from the server.
  \<open>resources\<close> is \<open>None\<close> when \<open>XRRGetScreenResourcesCurrent\<close> returns \<open>NULL\<close>;
  \<open>solaris_info\<close> is \<open>None\<close> when \<open>XineramaGetInfo\<close> returns 0; \<open>xfree_screens\<close> is
  \<open>None\<close> when \<open>XineramaQueryScreens\<close> returns \<open>NULL\<close>.\<close>

record x11_platform =
  G_ENABLE_DEBUG :: bool
  debug_xinerama :: bool
  WidthOfScreen :: gint
  HeightOfScreen :: gint
  HAVE_RANDR :: bool
  have_randr13 :: bool
  resources :: "XRROutputInfo list option"
  primary_output :: XID
  xinerama_extension :: bool
  HAVE_SOLARIS_XINERAMA :: bool
  solaris_state :: bool
  solaris_info :: "GdkRectangle list option"
  HAVE_XFREE_XINERAMA :: bool
  xfree_active :: bool
  xfree_screens :: "GdkRectangle list option"

subsection \<open>Discovery\<close>

definition init_fake_xinerama :: "x11_platform \<Rightarrow> GdkX11Screen \<Rightarrow> bool \<times> GdkX11Screen" where
  "init_fake_xinerama p screen =
     (if \<not> G_ENABLE_DEBUG p then (False, screen)
      else if \<not> debug_xinerama p then (False, screen)
      else
        let w = WidthOfScreen p; h = HeightOfScreen p
        in (True, screen\<lparr>monitors :=
              [init_monitor_geometry 0 0 (c_div w 2) (c_div h 2),
               init_monitor_geometry (c_div w 2) 0 (c_div w 2) (c_div h 2),
               init_monitor_geometry 0 (c_div h 2) (c_div w 2) (c_div h 2),
               init_monitor_geometry (c_div w 2) (c_div h 2) (c_div w 2) (c_div h 2)]\<rparr>))"

text \<open>The first loop of \<open>init_randr13\<close>: one monitor per output that is not disconnected
  and has a CRTC, in enumeration order.\<close>

fun collect_monitors :: "XRROutputInfo list \<Rightarrow> GdkX11Monitor list" where
  "collect_monitors [] = []"
| "collect_monitors (out # outs) =
     (if connection out = RR_Disconnected then collect_monitors outs
      else case crtc out of
             None \<Rightarrow> collect_monitors outs
           | Some c \<Rightarrow>
               \<lparr>geometry = \<lparr>rect_x = scast (crtc_x c), rect_y = scast (crtc_y c),
                            rect_width = ucast (crtc_width c),
                            rect_height = ucast (crtc_height c)\<rparr>,
                mon_output = out_id out, width_mm = mm_width out, height_mm = mm_height out,
                output_name = Some (out_name out), manufacturer = None\<rparr>
               # collect_monitors outs)"

text \<open>\<open>randr12_compat\<close>: some output, connected or not, is named "default".\<close>

definition randr12_compat :: "XRROutputInfo list \<Rightarrow> bool" where
  "randr12_compat outs = list_ex (\<lambda>out. out_name out = ''default'') outs"

definition g_ascii_tolower :: "char \<Rightarrow> char" where
  "g_ascii_tolower c =
     (let n = (of_char c :: nat) in if 65 \<le> n \<and> n \<le> 90 then char_of (n + 32) else c)"

text \<open>\<open>g_ascii_strncasecmp (s1, s2, n) == 0\<close> for strings without embedded NUL.\<close>

definition g_ascii_strncasecmp_eq :: "string \<Rightarrow> string \<Rightarrow> nat \<Rightarrow> bool" where
  "g_ascii_strncasecmp_eq s1 s2 n =
     (map g_ascii_tolower (take n s1) = map g_ascii_tolower (take n s2))"

text \<open>The name test of the primary loop.  Every monitor that \<open>init_randr13\<close> builds has a
  name (\<open>g_strdup (output->name)\<close>).\<close>

definition lvds_name :: "GdkX11Monitor \<Rightarrow> bool" where
  "lvds_name m =
     (case output_name m of None \<Rightarrow> False | Some s \<Rightarrow> g_ascii_strncasecmp_eq s ''LVDS'' 4)"

text \<open>The primary loop of \<open>init_randr13\<close> over the sorted array, from index \<open>i\<close> with
  the current value \<open>pm\<close> of \<open>primary_monitor\<close>; the first two branches \<open>break\<close>.\<close>

fun select_primary :: "XID \<Rightarrow> XID \<Rightarrow> GdkX11Monitor list \<Rightarrow> nat \<Rightarrow> nat \<Rightarrow> nat" where
  "select_primary po fo [] i pm = pm"
| "select_primary po fo (m # ms) i pm =
     (if mon_output m = po then i
      else if po = X_None \<and> lvds_name m then i
      else if mon_output m = fo then select_primary po fo ms (Suc i) i
      else select_primary po fo ms (Suc i) pm)"

definition first_output :: "XRROutputInfo list \<Rightarrow> XID" where
  "first_output outs = (case outs of [] \<Rightarrow> X_None | out # _ \<Rightarrow> out_id out)"

definition init_randr13 ::
  "(GdkX11Monitor list \<Rightarrow> GdkX11Monitor list) \<Rightarrow> x11_platform \<Rightarrow> GdkX11Screen
     \<Rightarrow> bool \<times> GdkX11Screen" where
  "init_randr13 srt p screen =
     (if \<not> HAVE_RANDR p then (False, screen)
      else if \<not> have_randr13 p then (False, screen)
      else case resources p of
        None \<Rightarrow> (False, screen)
      | Some outs \<Rightarrow>
          if randr12_compat outs then (False, screen)
          else
            let sorted_monitors = srt (collect_monitors outs);
                pm = select_primary (primary_output p) (first_output outs) sorted_monitors 0 0
            in (0 < length sorted_monitors,
                screen\<lparr>monitors := sorted_monitors, primary_monitor := pm\<rparr>))"

definition xinerama_monitors :: "GdkRectangle list \<Rightarrow> GdkX11Monitor list" where
  "xinerama_monitors rs =
     map (\<lambda>r. init_monitor_geometry (rect_x r) (rect_y r) (rect_width r) (rect_height r)) rs"

definition init_solaris_xinerama :: "x11_platform \<Rightarrow> GdkX11Screen \<Rightarrow> bool \<times> GdkX11Screen" where
  "init_solaris_xinerama p screen =
     (if \<not> HAVE_SOLARIS_XINERAMA p then (False, screen)
      else if \<not> solaris_state p then (False, screen)
      else case solaris_info p of
        None \<Rightarrow> (False, screen)
      | Some rs \<Rightarrow> (True, screen\<lparr>monitors := xinerama_monitors rs, primary_monitor := 0\<rparr>))"

definition init_xfree_xinerama :: "x11_platform \<Rightarrow> GdkX11Screen \<Rightarrow> bool \<times> GdkX11Screen" where
  "init_xfree_xinerama p screen =
     (if \<not> HAVE_XFREE_XINERAMA p then (False, screen)
      else if \<not> xfree_active p then (False, screen)
      else case xfree_screens p of
        None \<Rightarrow> (False, screen)
      | Some rs \<Rightarrow>
          if rs = [] then (False, screen)
          else (True, screen\<lparr>monitors := xinerama_monitors rs, primary_monitor := 0\<rparr>))"

definition single_monitor :: "x11_platform \<Rightarrow> GdkX11Screen \<Rightarrow> GdkX11Screen" where
  "single_monitor p screen =
     screen\<lparr>monitors := [init_monitor_geometry 0 0 (WidthOfScreen p) (HeightOfScreen p)],
            primary_monitor := 0\<rparr>"

definition init_multihead ::
  "(GdkX11Monitor list \<Rightarrow> GdkX11Monitor list) \<Rightarrow> x11_platform \<Rightarrow> GdkX11Screen
     \<Rightarrow> GdkX11Screen" where
  "init_multihead srt p screen =
     (case init_fake_xinerama p screen of
        (True, s1) \<Rightarrow> s1
      | (False, s1) \<Rightarrow>
          (case init_randr13 srt p s1 of
             (True, s2) \<Rightarrow> s2
           | (False, s2) \<Rightarrow>
               if xinerama_extension p then
                 (case init_solaris_xinerama p s2 of
                    (True, s3) \<Rightarrow> s3
                  | (False, s3) \<Rightarrow>
                      (case init_xfree_xinerama p s3 of
                         (True, s4) \<Rightarrow> s4
                       | (False, s4) \<Rightarrow> single_monitor p s4))
               else single_monitor p s2))"

subsection \<open>Change detection\<close>

text \<open>\<open>g_strcmp0 (a, b) == 0\<close> is equality of \<open>string option\<close>: two \<open>NULL\<close>s are equal
  and \<open>NULL\<close> differs from every string.\<close>

definition compare_monitor :: "GdkX11Monitor \<Rightarrow> GdkX11Monitor \<Rightarrow> bool" where
  "compare_monitor m1 m2 =
     (if rect_x (geometry m1) \<noteq> rect_x (geometry m2) \<or>
         rect_y (geometry m1) \<noteq> rect_y (geometry m2) \<or>
         rect_width (geometry m1) \<noteq> rect_width (geometry m2) \<or>
         rect_height (geometry m1) \<noteq> rect_height (geometry m2)
      then False
      else if width_mm m1 \<noteq> width_mm m2 \<or> height_mm m1 \<noteq> height_mm m2 then False
      else if output_name m1 \<noteq> output_name m2 then False
      else if manufacturer m1 \<noteq> manufacturer m2 then False
      else True)"

fun compare_monitors_loop :: "GdkX11Monitor list \<Rightarrow> GdkX11Monitor list \<Rightarrow> bool" where
  "compare_monitors_loop (m1 # ms1) (m2 # ms2) =
     (if \<not> compare_monitor m1 m2 then False else compare_monitors_loop ms1 ms2)"
| "compare_monitors_loop _ _ = True"

definition compare_monitors :: "GdkX11Monitor list \<Rightarrow> GdkX11Monitor list \<Rightarrow> bool" where
  "compare_monitors monitors1 monitors2 =
     (if length monitors1 \<noteq> length monitors2 then False
      else compare_monitors_loop monitors1 monitors2)"

datatype screen_signal = monitors_changed

text \<open>\<open>process_monitors_change\<close>: the new screen and the signals emitted.\<close>

definition process_monitors_change ::
  "(GdkX11Monitor list \<Rightarrow> GdkX11Monitor list) \<Rightarrow> x11_platform \<Rightarrow> GdkX11Screen
     \<Rightarrow> GdkX11Screen \<times> screen_signal list" where
  "process_monitors_change srt p screen =
     (let old_primary = primary_monitor screen;
          old_monitors = monitors screen;
          screen1 = init_multihead srt p (screen\<lparr>monitors := []\<rparr>);
          changed = (\<not> compare_monitors old_monitors (monitors screen1) \<or>
                     primary_monitor screen1 \<noteq> old_primary)
      in (screen1, if changed then [monitors_changed] else []))"

section \<open>Toplevel windows: data (gtk/gtkwindow.c)\<close>

text \<open>
  A \<open>gdouble\<close> is an IEEE 754 double, kept as its 64 bits: one sign bit, eleven exponent
  bits, fifty-two fraction bits.  It is a NaN when the exponent bits are all set and the
  fraction is not zero, and a zero when all bits but the sign are clear.  The C relation
  \<open>==\<close> on doubles holds when neither side is a NaN and the two are the same number,
  that is, have the same bits or are both zeros; \<open>!=\<close> is its negation, so a NaN
  differs from everything, itself included.
\<close>

type_synonym gdouble = "64 word"

definition double_is_nan :: "gdouble \<Rightarrow> bool" where
  "double_is_nan d =
     (d AND 0x7FF0000000000000 = 0x7FF0000000000000 \<and> d AND 0x000FFFFFFFFFFFFF \<noteq> 0)"

definition double_is_zero :: "gdouble \<Rightarrow> bool" where
  "double_is_zero d = (d AND 0x7FFFFFFFFFFFFFFF = 0)"

definition double_eq :: "gdouble \<Rightarrow> gdouble \<Rightarrow> bool" where
  "double_eq a b =
     (\<not> double_is_nan a \<and> \<not> double_is_nan b \<and> (a = b \<or> (double_is_zero a \<and> double_is_zero b)))"

definition double_ne :: "gdouble \<Rightarrow> gdouble \<Rightarrow> bool" where
  "double_ne a b = (\<not> double_eq a b)"

text \<open>
  \<open>GdkGeometry\<close>, \<open>GdkWindowHints\<close> and the enumerations below are declared in headers
  that are not among the sources.  The bit values of \<open>GdkWindowHints\<close> are a parameter
  \<open>hb\<close> of every function that tests a flag.
\<close>

record GdkGeometry =
  min_width :: gint
  min_height :: gint
  max_width :: gint
  max_height :: gint
  base_width :: gint
  base_height :: gint
  width_inc :: gint
  height_inc :: gint
  min_aspect :: gdouble
  max_aspect :: gdouble
  win_gravity :: nat

record hint_bits =
  GDK_HINT_POS :: guint
  GDK_HINT_MIN_SIZE :: guint
  GDK_HINT_MAX_SIZE :: guint
  GDK_HINT_BASE_SIZE :: guint
  GDK_HINT_ASPECT :: guint
  GDK_HINT_RESIZE_INC :: guint
  GDK_HINT_WIN_GRAVITY :: guint

text \<open>The values GDK gives the flags (\<open>1 << 0\<close> to \<open>1 << 6\<close>), for concrete runs.\<close>

definition gdk_hint_bits :: hint_bits where
  "gdk_hint_bits =
     \<lparr>GDK_HINT_POS = 1, GDK_HINT_MIN_SIZE = 2, GDK_HINT_MAX_SIZE = 4,
      GDK_HINT_BASE_SIZE = 8, GDK_HINT_ASPECT = 16, GDK_HINT_RESIZE_INC = 32,
      GDK_HINT_WIN_GRAVITY = 64\<rparr>"

datatype GtkWindowPosition =
  GTK_WIN_POS_NONE | GTK_WIN_POS_CENTER | GTK_WIN_POS_MOUSE
  | GTK_WIN_POS_CENTER_ALWAYS | GTK_WIN_POS_CENTER_ON_PARENT

datatype GtkWindowType = GTK_WINDOW_TOPLEVEL | GTK_WINDOW_POPUP

datatype GtkSizeRequestMode =
  GTK_SIZE_REQUEST_HEIGHT_FOR_WIDTH | GTK_SIZE_REQUEST_WIDTH_FOR_HEIGHT
  | GTK_SIZE_REQUEST_CONSTANT_SIZE

datatype GtkResizeMode = GTK_RESIZE_PARENT | GTK_RESIZE_QUEUE | GTK_RESIZE_IMMEDIATE

text \<open>\<open>GtkWindowLastGeometryInfo\<close> (fields \<open>geometry\<close>, \<open>flags\<close>, \<open>configure_request\<close>).\<close>

record GtkWindowLastGeometryInfo =
  last_geometry :: "GdkGeometry"
  last_flags :: guint
  configure_request :: GdkRectangle

text \<open>\<open>struct _GtkWindowGeometryInfo\<close>; \<open>info_widget\<close> says whether \<open>widget\<close> is set,
  \<open>info_geometry\<close>, \<open>info_mask\<close> and \<open>last_info\<close> are the fields \<open>geometry\<close>,
  \<open>mask\<close> and \<open>last\<close>.\<close>

record GtkWindowGeometryInfo =
  info_geometry :: "GdkGeometry"
  info_mask :: guint
  info_widget :: bool
  resize_width :: gint
  resize_height :: gint
  initial_x :: gint
  initial_y :: gint
  default_width :: gint
  default_height :: gint
  initial_pos_set :: bool
  position_constraints_changed :: bool
  default_is_geometry :: bool
  resize_is_geometry :: bool
  last_info :: "GtkWindowLastGeometryInfo"

text \<open>The fields of \<open>GtkWindowPrivate\<close> and of the widget that the geometry code reads
  or writes.\<close>

record GtkWindow =
  geometry_info :: "GtkWindowGeometryInfo option"
  configure_request_count :: guint16
  need_default_position :: bool
  need_default_size :: bool
  configure_notify_received :: bool
  position :: GtkWindowPosition
  window_type :: GtkWindowType
  resizable :: bool
  gravity :: nat
  allocation :: GdkRectangle
  toplevel :: bool
  visible :: bool
  mapped :: bool
  resize_mode :: GtkResizeMode

text \<open>What the code asks of the transient parent, if there is one.\<close>

record parent_info =
  parent_mapped :: bool
  parent_has_window :: bool
  parent_monitor :: gint
  parent_origin_x :: gint
  parent_origin_y :: gint
  parent_allocation :: GdkRectangle

text \<open>
  What one pass reads from outside the window: the screen, the layout engine (preferred
  sizes, each a pair of minimum and natural), \<open>gdk_window_constrain_size\<close>, the pointer
  and the monitors.  \<open>preferred_size\<close> is the minimum requisition of the window,
  \<open>preferred_size_big\<close> the same with the geometry widget forced to
  \<open>TEMPORARY_SIZE\<close>; \<open>stack_geometry\<close> is the content of an uninitialised
  \<open>GdkGeometry\<close> local.
\<close>

record window_env =
  screen_width :: gint
  screen_height :: gint
  request_mode :: GtkSizeRequestMode
  preferred_width :: "gint \<times> gint"
  preferred_height :: "gint \<times> gint"
  preferred_width_for_height :: "gint \<Rightarrow> gint \<times> gint"
  preferred_height_for_width :: "gint \<Rightarrow> gint \<times> gint"
  preferred_size :: "gint \<times> gint"
  preferred_size_big :: "gint \<times> gint"
  gdk_window_constrain_size :: "GdkGeometry \<Rightarrow> guint \<Rightarrow> gint \<Rightarrow> gint \<Rightarrow> gint \<times> gint"
  pointer_on_screen :: bool
  pointer_x :: gint
  pointer_y :: gint
  monitor_at_point :: gint
  n_monitors :: gint
  monitor_workarea :: "gint \<Rightarrow> GdkRectangle"
  monitor_geometry :: "gint \<Rightarrow> GdkRectangle"
  transient_parent :: "parent_info option"
  stack_geometry :: "GdkGeometry"

text \<open>Calls into GDK and into the widget machinery, in the order made.\<close>

datatype effect =
  gdk_window_set_geometry_hints "GdkGeometry" guint
  | gdk_window_move_resize gint gint gint gint
  | gdk_window_resize gint gint
  | gdk_window_move gint gint
  | gtk_widget_size_allocate GdkRectangle
  | set_grip_position
  | update_grip_visibility
  | gdk_window_process_updates
  | gdk_window_configure_finished
  | gtk_widget_queue_resize_no_redraw
  | gtk_container_queue_resize
  | gtk_container_dequeue_resize_handler
  | gtk_container_resize_children
  | gdk_window_freeze_toplevel_updates
  | gdk_window_thaw_toplevel_updates
  | gtk_widget_queue_draw
  | gdk_window_invalidate_rect
  | parent_configure_event
  | parent_check_resize

fun is_size_request :: "effect \<Rightarrow> bool" where
  "is_size_request (gdk_window_move_resize x y w h) = True"
| "is_size_request (gdk_window_resize w h) = True"
| "is_size_request _ = False"

fun is_move_request :: "effect \<Rightarrow> bool" where
  "is_move_request (gdk_window_move x y) = True"
| "is_move_request _ = False"

text \<open>A platform move, resize or move-resize call.\<close>

definition is_configure_request :: "effect \<Rightarrow> bool" where
  "is_configure_request e = (is_size_request e \<or> is_move_request e)"

section \<open>Toplevel windows: geometry hints and the configure request\<close>

text \<open>\<open>gtk_window_get_geometry_info (window, TRUE)\<close>: the record a window without one
  gets.\<close>

definition zero_geometry :: "GdkGeometry" where
  "zero_geometry =
     \<lparr>min_width = 0, min_height = 0, max_width = 0, max_height = 0,
      base_width = 0, base_height = 0, width_inc = 0, height_inc = 0,
      min_aspect = 0, max_aspect = 0, win_gravity = 0\<rparr>"

definition new_geometry_info :: "GtkWindowGeometryInfo" where
  "new_geometry_info =
     \<lparr>info_geometry = zero_geometry, info_mask = 0, info_widget = False,
      resize_width = - 1, resize_height = - 1, initial_x = 0, initial_y = 0,
      default_width = - 1, default_height = - 1,
      initial_pos_set = False, position_constraints_changed = False,
      default_is_geometry = False, resize_is_geometry = False,
      last_info = \<lparr>last_geometry = zero_geometry, last_flags = 0,
        configure_request = \<lparr>rect_x = 0, rect_y = 0, rect_width = - 1, rect_height = - 1\<rparr>\<rparr>\<rparr>"

definition gtk_window_get_geometry_info ::
  "GtkWindow \<Rightarrow> bool \<Rightarrow> GtkWindowGeometryInfo option \<times> GtkWindow" where
  "gtk_window_get_geometry_info window create =
     (case geometry_info window of
        Some info \<Rightarrow> (Some info, window)
      | None \<Rightarrow>
          if create then (Some new_geometry_info, window\<lparr>geometry_info := Some new_geometry_info\<rparr>)
          else (None, window))"

definition gtk_window_compare_hints ::
  "hint_bits \<Rightarrow> GdkGeometry \<Rightarrow> guint \<Rightarrow> GdkGeometry \<Rightarrow> guint \<Rightarrow> bool" where
  "gtk_window_compare_hints hb geometry_a flags_a geometry_b flags_b =
     (if flags_a \<noteq> flags_b then False
      else if flags_a AND GDK_HINT_MIN_SIZE hb \<noteq> 0 \<and>
              (min_width geometry_a \<noteq> min_width geometry_b \<or>
               min_height geometry_a \<noteq> min_height geometry_b) then False
      else if flags_a AND GDK_HINT_MAX_SIZE hb \<noteq> 0 \<and>
              (max_width geometry_a \<noteq> max_width geometry_b \<or>
               max_height geometry_a \<noteq> max_height geometry_b) then False
      else if flags_a AND GDK_HINT_BASE_SIZE hb \<noteq> 0 \<and>
              (base_width geometry_a \<noteq> base_width geometry_b \<or>
               base_height geometry_a \<noteq> base_height geometry_b) then False
      else if flags_a AND GDK_HINT_ASPECT hb \<noteq> 0 \<and>
              (double_ne (min_aspect geometry_a) (min_aspect geometry_b) \<or>
               double_ne (max_aspect geometry_a) (max_aspect geometry_b)) then False
      else if flags_a AND GDK_HINT_RESIZE_INC hb \<noteq> 0 \<and>
              (width_inc geometry_a \<noteq> width_inc geometry_b \<or>
               height_inc geometry_a \<noteq> height_inc geometry_b) then False
      else if flags_a AND GDK_HINT_WIN_GRAVITY hb \<noteq> 0 \<and>
              win_gravity geometry_a \<noteq> win_gravity geometry_b then False
      else True)"

text \<open>\<open>geometry_size_to_pixels\<close>; \<open>do_width\<close> and \<open>do_height\<close> say whether the
  pointer arguments are non-\<open>NULL\<close>.\<close>

definition geometry_size_to_pixels ::
  "hint_bits \<Rightarrow> GdkGeometry \<Rightarrow> guint \<Rightarrow> bool \<Rightarrow> bool \<Rightarrow> gint \<times> gint \<Rightarrow> gint \<times> gint" where
  "geometry_size_to_pixels hb geom flags do_width do_height wh =
     (let (bw, bh) = (if flags AND GDK_HINT_BASE_SIZE hb \<noteq> 0
                      then (base_width geom, base_height geom) else (0, 0));
          (mw, mh) = (if flags AND GDK_HINT_MIN_SIZE hb \<noteq> 0
                      then (min_width geom, min_height geom) else (0, 0));
          (wi, hi) = (if flags AND GDK_HINT_RESIZE_INC hb \<noteq> 0
                      then (width_inc geom, height_inc geom) else (1, 1));
          w = (if do_width then G_MAX (fst wh * wi + bw) mw else fst wh);
          h = (if do_height then G_MAX (snd wh * hi + bh) mh else snd wh)
      in (w, h))"

definition MAX_DEFAULT_WINDOW_WIDTH :: gint where
  "MAX_DEFAULT_WINDOW_WIDTH = 640"

definition MAX_DEFAULT_WINDOW_HEIGHT :: gint where
  "MAX_DEFAULT_WINDOW_HEIGHT = 480"

definition gtk_window_guess_default_size :: "window_env \<Rightarrow> gint \<times> gint" where
  "gtk_window_guess_default_size env =
     (let sw = screen_width env; sh = screen_height env;
          (w0, h0) = (if sh \<le>s sw
                      then (G_MIN sw MAX_DEFAULT_WINDOW_WIDTH, G_MIN sh MAX_DEFAULT_WINDOW_HEIGHT)
                      else (G_MIN sw MAX_DEFAULT_WINDOW_HEIGHT, G_MIN sh MAX_DEFAULT_WINDOW_WIDTH))
      in if request_mode env = GTK_SIZE_REQUEST_WIDTH_FOR_HEIGHT
         then
           let (minimum, natural) = preferred_height env;
               h = G_MAX minimum (G_MIN h0 natural);
               (minimum, natural) = preferred_width_for_height env h;
               w = G_MAX minimum (G_MIN w0 natural)
           in (w, h)
         else
           let (minimum, natural) = preferred_width env;
               w = G_MAX minimum (G_MIN w0 natural);
               (minimum, natural) = preferred_height_for_width env w;
               h = G_MAX minimum (G_MIN h0 natural)
           in (w, h))"

definition gtk_window_compute_configure_request_size ::
  "hint_bits \<Rightarrow> window_env \<Rightarrow> GtkWindow \<Rightarrow> GdkGeometry \<Rightarrow> guint \<Rightarrow> gint \<times> gint" where
  "gtk_window_compute_configure_request_size hb env window geom flags =
     (let info = geometry_info window;
          wh1 =
            (if need_default_size window then
               let (gw, gh) = gtk_window_guess_default_size env;
                   (w, h) = (if gw = 0 \<and> gh = 0 then (200, 200) else (gw, gh))
               in case info of
                    None \<Rightarrow> (w, h)
                  | Some i \<Rightarrow>
                      let w = (if 0 <s default_width i then default_width i else w);
                          h = (if 0 <s default_height i then default_height i else h)
                      in if default_is_geometry i
                         then geometry_size_to_pixels hb geom flags
                                (0 <s default_width i) (0 <s default_height i) (w, h)
                         else (w, h)
             else (rect_width (allocation window), rect_height (allocation window)));
          wh2 =
            (case info of
               None \<Rightarrow> wh1
             | Some i \<Rightarrow>
                 let w = (if 0 <s resize_width i then resize_width i else fst wh1);
                     h = (if 0 <s resize_height i then resize_height i else snd wh1)
                 in if resize_is_geometry i
                    then geometry_size_to_pixels hb geom flags
                           (0 <s resize_width i) (0 <s resize_height i) (w, h)
                    else (w, h))
      in (G_MAX (fst wh2) 1, G_MAX (snd wh2) 1))"

definition get_effective_position :: "window_env \<Rightarrow> GtkWindow \<Rightarrow> GtkWindowPosition" where
  "get_effective_position env window =
     (let pos = position window
      in if pos = GTK_WIN_POS_CENTER_ON_PARENT \<and>
            (case transient_parent env of None \<Rightarrow> True | Some par \<Rightarrow> \<not> parent_mapped par)
         then GTK_WIN_POS_NONE else pos)"

definition get_center_monitor_of_window :: "window_env \<Rightarrow> gint" where
  "get_center_monitor_of_window env = c_div (n_monitors env) 2"

definition get_monitor_containing_pointer :: "window_env \<Rightarrow> gint" where
  "get_monitor_containing_pointer env =
     (if pointer_on_screen env then monitor_at_point env else - 1)"

definition center_window_on_monitor :: "window_env \<Rightarrow> gint \<Rightarrow> gint \<Rightarrow> gint \<times> gint" where
  "center_window_on_monitor env w h =
     (let monitor_num0 = get_monitor_containing_pointer env;
          monitor_num = (if monitor_num0 = - 1 then get_center_monitor_of_window env
                         else monitor_num0);
          monitor = monitor_workarea env monitor_num;
          x = c_div (rect_width monitor - w) 2 + rect_x monitor;
          y = c_div (rect_height monitor - h) 2 + rect_y monitor
      in (if x <s rect_x monitor then rect_x monitor else x,
          if y <s rect_y monitor then rect_y monitor else y))"

definition clamp :: "gint \<Rightarrow> gint \<Rightarrow> gint \<Rightarrow> gint \<Rightarrow> gint" where
  "clamp base extent clamp_base clamp_extent =
     (if clamp_extent <s extent then clamp_base + c_div clamp_extent 2 - c_div extent 2
      else if base <s clamp_base then clamp_base
      else if clamp_base + clamp_extent <s base + extent then clamp_base + clamp_extent - extent
      else base)"

definition clamp_window_to_rectangle ::
  "gint \<times> gint \<Rightarrow> gint \<Rightarrow> gint \<Rightarrow> GdkRectangle \<Rightarrow> gint \<times> gint" where
  "clamp_window_to_rectangle xy w h rect =
     (clamp (fst xy) w (rect_x rect) (rect_width rect),
      clamp (snd xy) h (rect_y rect) (rect_height rect))"

definition gtk_window_constrain_position ::
  "window_env \<Rightarrow> GtkWindow \<Rightarrow> gint \<Rightarrow> gint \<Rightarrow> gint \<times> gint \<Rightarrow> gint \<times> gint" where
  "gtk_window_constrain_position env window new_width new_height xy =
     (if position window = GTK_WIN_POS_CENTER_ALWAYS
      then center_window_on_monitor env new_width new_height
      else xy)"

definition TEMPORARY_SIZE :: gint where
  "TEMPORARY_SIZE = 10000"

text \<open>\<open>gtk_window_compute_hints\<close>: the geometry and the flags.\<close>

definition gtk_window_compute_hints ::
  "hint_bits \<Rightarrow> window_env \<Rightarrow> GtkWindow \<Rightarrow> GdkGeometry \<times> guint" where
  "gtk_window_compute_hints hb env window =
     (let requisition = preferred_size env;
          geometry_info = geometry_info window;
          (flags0, geom0) =
            (case geometry_info of
               Some i \<Rightarrow> (info_mask i, info_geometry i)
             | None \<Rightarrow> (0, stack_geometry env));
          (extra_width, extra_height) =
            (if (case geometry_info of Some i \<Rightarrow> info_widget i | None \<Rightarrow> False)
             then
               let ew = fst (preferred_size_big env) - TEMPORARY_SIZE;
                   eh = snd (preferred_size_big env) - TEMPORARY_SIZE
               in if ew <s 0 \<or> eh <s 0 then (G_MAX ew 0, G_MAX eh 0) else (ew, eh)
             else (0, 0));
          (flags1, geom1) =
            (if flags0 AND GDK_HINT_BASE_SIZE hb \<noteq> 0
             then (flags0, geom0\<lparr>base_width := base_width geom0 + extra_width,
                                 base_height := base_height geom0 + extra_height\<rparr>)
             else
               let f = flags0 OR GDK_HINT_BASE_SIZE hb;
                   g = geom0\<lparr>base_width := extra_width, base_height := extra_height\<rparr>
               in if f AND GDK_HINT_MIN_SIZE hb \<noteq> 0
                  then
                    let g = (if 0 <s min_width g
                             then g\<lparr>base_width := base_width g + min_width g\<rparr> else g);
                        g = (if 0 <s min_height g
                             then g\<lparr>base_height := base_height g + min_height g\<rparr> else g)
                    in (f, g)
                  else (f, g));
          requisition = (if \<not> resizable window then gtk_window_guess_default_size env
                         else requisition);
          (flags2, geom2) =
            (if flags1 AND GDK_HINT_MIN_SIZE hb \<noteq> 0
             then
               let g = (if min_width geom1 <s 0 then geom1\<lparr>min_width := fst requisition\<rparr>
                        else geom1\<lparr>min_width :=
                               G_MAX (fst requisition) (min_width geom1 + extra_width)\<rparr>);
                   g = (if min_height g <s 0 then g\<lparr>min_height := snd requisition\<rparr>
                        else g\<lparr>min_height :=
                               G_MAX (snd requisition) (min_height g + extra_height)\<rparr>)
               in (flags1, g)
             else (flags1 OR GDK_HINT_MIN_SIZE hb,
                   geom1\<lparr>min_width := fst requisition, min_height := snd requisition\<rparr>));
          (flags3, geom3) =
            (if flags2 AND GDK_HINT_MAX_SIZE hb \<noteq> 0
             then
               let g = (if max_width geom2 <s 0 then geom2\<lparr>max_width := fst requisition\<rparr>
                        else geom2\<lparr>max_width := max_width geom2 + extra_width\<rparr>);
                   g = (if max_height g <s 0 then g\<lparr>max_height := snd requisition\<rparr>
                        else g\<lparr>max_height := max_height g + extra_height\<rparr>)
               in (flags2, g)
             else if \<not> resizable window
             then (flags2 OR GDK_HINT_MAX_SIZE hb,
                   geom2\<lparr>max_width := fst requisition, max_height := snd requisition\<rparr>)
             else (flags2, geom2))
      in (geom3\<lparr>win_gravity := gravity window\<rparr>, flags3 OR GDK_HINT_WIN_GRAVITY hb))"

text \<open>\<open>gtk_window_compute_configure_request\<close>: the request rectangle, the geometry and
  the flags.\<close>

definition gtk_window_compute_configure_request ::
  "hint_bits \<Rightarrow> window_env \<Rightarrow> GtkWindow \<Rightarrow> GdkRectangle \<times> GdkGeometry \<times> guint" where
  "gtk_window_compute_configure_request hb env window =
     (let (new_geometry, new_flags) = gtk_window_compute_hints hb env window;
          (w0, h0) = gtk_window_compute_configure_request_size hb env window new_geometry new_flags;
          (w, h) = gdk_window_constrain_size env new_geometry new_flags w0 h0;
          pos = get_effective_position env window;
          info = geometry_info window;
          xy0 = (case info of
                   Some i \<Rightarrow> (rect_x (configure_request (last_info i)),
                              rect_y (configure_request (last_info i)))
                 | None \<Rightarrow> (0, 0));
          xy1 =
            (if need_default_position window then
               (case pos of
                  GTK_WIN_POS_CENTER_ALWAYS \<Rightarrow> center_window_on_monitor env w h
                | GTK_WIN_POS_CENTER \<Rightarrow> center_window_on_monitor env w h
                | GTK_WIN_POS_CENTER_ON_PARENT \<Rightarrow>
                    (case transient_parent env of
                       None \<Rightarrow> xy0
                     | Some par \<Rightarrow>
                         let monitor_num = (if parent_has_window par then parent_monitor par
                                            else - 1);
                             x = parent_origin_x par
                                   + c_div (rect_width (parent_allocation par) - w) 2;
                             y = parent_origin_y par
                                   + c_div (rect_height (parent_allocation par) - h) 2
                         in if 0 \<le>s monitor_num
                            then clamp_window_to_rectangle (x, y) w h
                                   (monitor_geometry env monitor_num)
                            else (x, y))
                | GTK_WIN_POS_MOUSE \<Rightarrow>
                    let monitor_num = (if pointer_on_screen env then monitor_at_point env
                                       else - 1);
                        x = pointer_x env - c_div w 2;
                        y = pointer_y env - c_div h 2;
                        x = G_CLAMP x 0 (screen_width env - w);
                        y = G_CLAMP y 0 (screen_height env - h)
                    in if 0 \<le>s monitor_num
                       then clamp_window_to_rectangle (x, y) w h
                              (monitor_geometry env monitor_num)
                       else (x, y)
                | GTK_WIN_POS_NONE \<Rightarrow> xy0)
             else xy0);
          xy2 =
            (if need_default_position window \<and>
                (case info of Some i \<Rightarrow> initial_pos_set i | None \<Rightarrow> False)
             then
               (case info of
                  Some i \<Rightarrow>
                    gtk_window_constrain_position env window w h (initial_x i, initial_y i)
                | None \<Rightarrow> xy1)
             else xy1)
      in (\<lparr>rect_x = fst xy2, rect_y = snd xy2, rect_width = w, rect_height = h\<rparr>,
          new_geometry, new_flags))"

section \<open>Toplevel windows: the move/resize pass and the configure event\<close>

text \<open>
  The first part of \<open>gtk_window_move_resize\<close>, up to the point where \<open>info->last\<close> is
  saved: the new request with its position constrained, the new hints, and the three
  change bits.  \<open>window\<close> is the window once \<open>gtk_window_get_geometry_info (window, TRUE)\<close>
  has run, \<open>info\<close> its record.
\<close>

record configure_plan =
  new_request :: GdkRectangle
  new_geometry :: "GdkGeometry"
  new_flags :: guint
  configure_request_size_changed :: bool
  configure_request_pos_changed :: bool
  hints_changed :: bool

definition the_info :: "GtkWindow \<Rightarrow> GtkWindowGeometryInfo" where
  "the_info window = (case geometry_info window of Some i \<Rightarrow> i | None \<Rightarrow> new_geometry_info)"

definition move_resize_plan ::
  "hint_bits \<Rightarrow> window_env \<Rightarrow> GtkWindow \<Rightarrow> configure_plan" where
  "move_resize_plan hb env window0 =
     (let window = snd (gtk_window_get_geometry_info window0 True);
          info = the_info window;
          lastreq = configure_request (last_info info);
          (request, geom, flags) = gtk_window_compute_configure_request hb env window;
          pos_changed0 = (rect_x lastreq \<noteq> rect_x request \<or> rect_y lastreq \<noteq> rect_y request);
          size_changed = (rect_width lastreq \<noteq> rect_width request \<or>
                          rect_height lastreq \<noteq> rect_height request);
          hints_changed0 =
            (\<not> gtk_window_compare_hints hb (last_geometry (last_info info))
                  (last_flags (last_info info)) geom flags)
      in if pos_changed0 \<or> size_changed \<or> hints_changed0 \<or> position_constraints_changed info
         then
           let (x, y) = gtk_window_constrain_position env window
                          (rect_width request) (rect_height request)
                          (rect_x request, rect_y request)
           in \<lparr>new_request = request\<lparr>rect_x := x, rect_y := y\<rparr>,
               new_geometry = geom, new_flags = flags,
               configure_request_size_changed = size_changed,
               configure_request_pos_changed = (rect_x lastreq \<noteq> x \<or> rect_y lastreq \<noteq> y),
               hints_changed = hints_changed0\<rparr>
         else
           \<lparr>new_request = request, new_geometry = geom, new_flags = flags,
            configure_request_size_changed = size_changed,
            configure_request_pos_changed = pos_changed0,
            hints_changed = hints_changed0\<rparr>)"

text \<open>The test of \<open>gtk_window_move_resize\<close> that turns \<open>GDK_HINT_POS\<close> on, which also
  sets \<open>hints_changed\<close>.\<close>

definition set_position_hint :: "hint_bits \<Rightarrow> window_env \<Rightarrow> GtkWindow \<Rightarrow> bool" where
  "set_position_hint hb env window0 =
     (let window = snd (gtk_window_get_geometry_info window0 True);
          info = the_info window;
          plan = move_resize_plan hb env window0
      in (configure_request_pos_changed plan \<or> initial_pos_set info \<or>
            (need_default_position window \<and>
             get_effective_position env window \<noteq> GTK_WIN_POS_NONE)) \<and>
         new_flags plan AND GDK_HINT_POS hb = 0)"

text \<open>\<open>gtk_window_move_resize\<close>: the window afterwards and the calls made.\<close>

definition gtk_window_move_resize ::
  "hint_bits \<Rightarrow> window_env \<Rightarrow> GtkWindow \<Rightarrow> GtkWindow \<times> effect list" where
  "gtk_window_move_resize hb env window0 =
     (let window = snd (gtk_window_get_geometry_info window0 True);
          info = the_info window;
          plan = move_resize_plan hb env window0;
          request = new_request plan;
          saved_last_info = last_info info;
          info1 = info\<lparr>last_info :=
                    \<lparr>last_geometry = new_geometry plan, last_flags = new_flags plan,
                     configure_request = request\<rparr>\<rparr>;
          set_pos = set_position_hint hb env window0;
          flags = (if set_pos then new_flags plan OR GDK_HINT_POS hb else new_flags plan);
          hints_changed1 = (hints_changed plan \<or> set_pos);
          fx_hints = (if hints_changed1
                      then [gdk_window_set_geometry_hints (new_geometry plan) flags] else []);
          alloc = allocation window
      in if configure_notify_received window then
           let fx = fx_hints @
                    [gtk_widget_size_allocate alloc, set_grip_position, update_grip_visibility,
                     gdk_window_process_updates, gdk_window_configure_finished]
           in if configure_request_size_changed plan \<or> configure_request_pos_changed plan
              then (window\<lparr>configure_notify_received := False,
                           geometry_info := Some (info1\<lparr>last_info := saved_last_info\<rparr>)\<rparr>,
                    fx @ [gtk_widget_queue_resize_no_redraw])
              else (window\<lparr>configure_notify_received := False, geometry_info := Some info1\<rparr>,
                    fx)
         else
           let (window2, fx2) =
                 (if (configure_request_size_changed plan \<or> hints_changed1) \<and>
                     (rect_width alloc \<noteq> rect_width request \<or>
                      rect_height alloc \<noteq> rect_height request)
                  then
                    let fx_req =
                          (if configure_request_pos_changed plan
                           then [gdk_window_move_resize (rect_x request) (rect_y request)
                                   (rect_width request) (rect_height request)]
                           else [gdk_window_resize (rect_width request) (rect_height request)])
                    in if window_type window = GTK_WINDOW_POPUP
                       then
                         let popup_alloc = \<lparr>rect_x = 0, rect_y = 0,
                                            rect_width = rect_width request,
                                            rect_height = rect_height request\<rparr>
                         in (window\<lparr>allocation := popup_alloc\<rparr>,
                             fx_req @ [gtk_widget_size_allocate popup_alloc,
                                       gdk_window_process_updates] @
                             (if resize_mode window = GTK_RESIZE_QUEUE
                              then [gtk_widget_queue_draw] else []))
                       else
                         (window\<lparr>configure_request_count := configure_request_count window + 1\<rparr>,
                          fx_req @ [gdk_window_freeze_toplevel_updates] @
                          (if resize_mode window = GTK_RESIZE_QUEUE
                           then [gtk_widget_queue_resize_no_redraw,
                                 gtk_container_dequeue_resize_handler]
                           else []))
                  else
                    (window,
                     (if configure_request_pos_changed plan
                      then [gdk_window_move (rect_x request) (rect_y request)] else []) @
                     [gtk_container_resize_children]))
           in (window2\<lparr>geometry_info :=
                         Some (info1\<lparr>position_constraints_changed := False,
                                      initial_pos_set := False,
                                      resize_width := - 1, resize_height := - 1\<rparr>)\<rparr>,
               fx_hints @ fx2))"

text \<open>\<open>gtk_window_check_resize\<close>, the idle pass of a window.\<close>

definition gtk_window_check_resize ::
  "hint_bits \<Rightarrow> window_env \<Rightarrow> GtkWindow \<Rightarrow> GtkWindow \<times> effect list" where
  "gtk_window_check_resize hb env window =
     (if \<not> toplevel window then (window, [parent_check_resize])
      else if visible window then gtk_window_move_resize hb env window
      else (window, []))"

text \<open>\<open>gtk_window_resize\<close>; a failed \<open>g_return_if_fail\<close> returns without effect.\<close>

definition gtk_window_resize ::
  "GtkWindow \<Rightarrow> gint \<Rightarrow> gint \<Rightarrow> GtkWindow \<times> effect list" where
  "gtk_window_resize window w h =
     (if \<not> 0 <s w then (window, [])
      else if \<not> 0 <s h then (window, [])
      else
        let info = the_info window
        in (window\<lparr>geometry_info :=
                     Some (info\<lparr>resize_width := w, resize_height := h,
                                resize_is_geometry := False\<rparr>)\<rparr>,
            [gtk_widget_queue_resize_no_redraw]))"

record GdkEventConfigure =
  event_x :: gint
  event_y :: gint
  event_width :: gint
  event_height :: gint

text \<open>\<open>gtk_window_configure_event\<close>: the window afterwards, the calls made and the value
  returned.  \<open>parent_handler\<close> is \<open>None\<close> when the parent class has no handler, else the
  value its handler returns.\<close>

definition gtk_window_configure_event ::
  "bool option \<Rightarrow> GtkWindow \<Rightarrow> GdkEventConfigure \<Rightarrow> GtkWindow \<times> effect list \<times> bool" where
  "gtk_window_configure_event parent_handler window event =
     (let expected_reply = (0 < configure_request_count window)
      in if \<not> toplevel window then
           (case parent_handler of
              Some r \<Rightarrow> (window, [parent_configure_event], r)
            | None \<Rightarrow> (window, [gdk_window_configure_finished], False))
         else
           let (window1, fx1) =
                 (if 0 < configure_request_count window
                  then (window\<lparr>configure_request_count := configure_request_count window - 1\<rparr>,
                        [gdk_window_thaw_toplevel_updates])
                  else (window, []));
               alloc = allocation window1
           in if \<not> expected_reply \<and>
                 rect_width alloc = event_width event \<and> rect_height alloc = event_height event
              then (window1, fx1 @ [gdk_window_configure_finished], True)
              else
                (window1\<lparr>configure_notify_received := True,
                          allocation := alloc\<lparr>rect_width := event_width event,
                                              rect_height := event_height event\<rparr>\<rparr>,
                 fx1 @ [gdk_window_invalidate_rect, gtk_container_queue_resize], True))"

section \<open>Notions used in the statements\<close>

text \<open>The order the documentation gives for monitors: ascending x, then ascending y, then
  descending height, then descending width.\<close>

definition spec_monitor_before :: "GdkX11Monitor \<Rightarrow> GdkX11Monitor \<Rightarrow> bool" where
  "spec_monitor_before a b =
     (rect_x (geometry a) <s rect_x (geometry b) \<or>
      (rect_x (geometry a) = rect_x (geometry b) \<and>
        (rect_y (geometry a) <s rect_y (geometry b) \<or>
         (rect_y (geometry a) = rect_y (geometry b) \<and>
           (rect_height (geometry b) <s rect_height (geometry a) \<or>
            (rect_height (geometry a) = rect_height (geometry b) \<and>
             rect_width (geometry b) <s rect_width (geometry a)))))))"

text \<open>Rectangles whose four fields lie in \<open>[-2^30, 2^30)\<close>; the positions (16 bits,
  signed) and sizes (16 bits, unsigned) of the X protocol do.\<close>

definition coords_in_range :: "GdkX11Monitor \<Rightarrow> bool" where
  "coords_in_range m =
     (- (2 ^ 30) \<le> sint (rect_x (geometry m)) \<and> sint (rect_x (geometry m)) < 2 ^ 30 \<and>
      - (2 ^ 30) \<le> sint (rect_y (geometry m)) \<and> sint (rect_y (geometry m)) < 2 ^ 30 \<and>
      - (2 ^ 30) \<le> sint (rect_width (geometry m)) \<and> sint (rect_width (geometry m)) < 2 ^ 30 \<and>
      - (2 ^ 30) \<le> sint (rect_height (geometry m)) \<and> sint (rect_height (geometry m)) < 2 ^ 30)"

definition monitor_key :: "GdkX11Monitor \<Rightarrow> int \<times> int \<times> int \<times> int" where
  "monitor_key m =
     (sint (rect_x (geometry m)), sint (rect_y (geometry m)),
      - sint (rect_height (geometry m)), - sint (rect_width (geometry m)))"

text \<open>
  The two outputs of the scenario: the first drives a 1920x1080 region at (0, 0) and the
  second one at (1920, 0); both are connected, neither is named "default" nor has a name
  starting with "LVDS" in any case, and they have different identifiers, neither of them
  \<open>None\<close>.
\<close>

definition side_by_side_outputs :: "XRROutputInfo \<Rightarrow> XRROutputInfo \<Rightarrow> bool" where
  "side_by_side_outputs oA oB =
     (crtc oA = Some \<lparr>crtc_x = 0, crtc_y = 0, crtc_width = 1920, crtc_height = 1080\<rparr> \<and>
      crtc oB = Some \<lparr>crtc_x = 1920, crtc_y = 0, crtc_width = 1920, crtc_height = 1080\<rparr> \<and>
      connection oA \<noteq> RR_Disconnected \<and> connection oB \<noteq> RR_Disconnected \<and>
      out_name oA \<noteq> ''default'' \<and> out_name oB \<noteq> ''default'' \<and>
      \<not> g_ascii_strncasecmp_eq (out_name oA) ''LVDS'' 4 \<and>
      \<not> g_ascii_strncasecmp_eq (out_name oB) ''LVDS'' 4 \<and>
      out_id oA \<noteq> X_None \<and> out_id oB \<noteq> X_None \<and> out_id oA \<noteq> out_id oB)"

text \<open>The monitor that \<open>init_randr13\<close> builds for an output with a CRTC at a given
  rectangle.\<close>

definition monitor_of :: "XRROutputInfo \<Rightarrow> GdkRectangle \<Rightarrow> GdkX11Monitor" where
  "monitor_of out r =
     \<lparr>geometry = r, mon_output = out_id out, width_mm = mm_width out,
      height_mm = mm_height out, output_name = Some (out_name out), manufacturer = None\<rparr>"

text \<open>RandR 1.3 is compiled in and present, and reports the outputs \<open>outs\<close>, none of
  them named "default".\<close>

definition randr13_reports :: "x11_platform \<Rightarrow> XRROutputInfo list \<Rightarrow> bool" where
  "randr13_reports p outs =
     (HAVE_RANDR p \<and> have_randr13 p \<and> resources p = Some outs \<and> \<not> randr12_compat outs)"

text \<open>Two monitors differ in a field that the deep comparison reads.\<close>

definition monitor_differs :: "GdkX11Monitor \<Rightarrow> GdkX11Monitor \<Rightarrow> bool" where
  "monitor_differs a b =
     (rect_x (geometry a) \<noteq> rect_x (geometry b) \<or> rect_y (geometry a) \<noteq> rect_y (geometry b) \<or>
      rect_width (geometry a) \<noteq> rect_width (geometry b) \<or>
      rect_height (geometry a) \<noteq> rect_height (geometry b) \<or>
      width_mm a \<noteq> width_mm b \<or> height_mm a \<noteq> height_mm b \<or>
      output_name a \<noteq> output_name b \<or> manufacturer a \<noteq> manufacturer b)"

text \<open>
  Nothing but a resize is pending for a window that has been shown: no default size or
  position is still to be computed, no move and no change of the position policy is
  recorded, the hints computed now are those last sent, the size last requested is the
  current allocation, and the current allocation satisfies the hints.
\<close>

definition no_other_change_pending :: "hint_bits \<Rightarrow> window_env \<Rightarrow> GtkWindow \<Rightarrow> bool" where
  "no_other_change_pending hb env window =
     (case geometry_info window of
        None \<Rightarrow> False
      | Some info \<Rightarrow>
          \<not> need_default_size window \<and> \<not> need_default_position window \<and>
          \<not> initial_pos_set info \<and> \<not> position_constraints_changed info \<and>
          0 <s rect_width (allocation window) \<and> 0 <s rect_height (allocation window) \<and>
          gtk_window_compare_hints hb (last_geometry (last_info info)) (last_flags (last_info info))
            (fst (gtk_window_compute_hints hb env window))
            (snd (gtk_window_compute_hints hb env window)) \<and>
          rect_width (configure_request (last_info info)) = rect_width (allocation window) \<and>
          rect_height (configure_request (last_info info)) = rect_height (allocation window) \<and>
          gdk_window_constrain_size env
            (fst (gtk_window_compute_hints hb env window))
            (snd (gtk_window_compute_hints hb env window))
            (rect_width (allocation window)) (rect_height (allocation window))
          = (rect_width (allocation window), rect_height (allocation window)))"

section \<open>Concrete inputs\<close>

text \<open>A 1920x1080 screen with one monitor; the window's content asks for 50x50; the size
  constraint raises a size to the minimum of the hints.\<close>

definition ex_env :: "window_env" where
  "ex_env =
     \<lparr>screen_width = 1920, screen_height = 1080,
      request_mode = GTK_SIZE_REQUEST_HEIGHT_FOR_WIDTH,
      preferred_width = (50, 50), preferred_height = (50, 50),
      preferred_width_for_height = (\<lambda>h. (50, 50)),
      preferred_height_for_width = (\<lambda>w. (50, 50)),
      preferred_size = (50, 50), preferred_size_big = (10000, 10000),
      gdk_window_constrain_size = (\<lambda>g f w h. (G_MAX w (min_width g), G_MAX h (min_height g))),
      pointer_on_screen = True, pointer_x = 10, pointer_y = 10,
      monitor_at_point = 0, n_monitors = 1,
      monitor_workarea = (\<lambda>n. \<lparr>rect_x = 0, rect_y = 0, rect_width = 1920, rect_height = 1080\<rparr>),
      monitor_geometry = (\<lambda>n. \<lparr>rect_x = 0, rect_y = 0, rect_width = 1920, rect_height = 1080\<rparr>),
      transient_parent = None, stack_geometry = zero_geometry\<rparr>"


definition ex_geometry :: "GdkGeometry" where
  "ex_geometry = zero_geometry\<lparr>min_width := 50, min_height := 50, win_gravity := 1\<rparr>"

definition ex_info :: "GtkWindowGeometryInfo" where
  "ex_info =
     new_geometry_info\<lparr>last_info :=
       \<lparr>last_geometry = ex_geometry, last_flags = 74,
        configure_request = \<lparr>rect_x = 0, rect_y = 0, rect_width = 100, rect_height = 100\<rparr>\<rparr>\<rparr>"

text \<open>A managed toplevel window, shown at 100x100, with that size and the current hints
  as the last request sent and none in flight.\<close>

definition ex_window :: "GtkWindow" where
  "ex_window =
     \<lparr>geometry_info = Some ex_info, configure_request_count = 0,
      need_default_position = False, need_default_size = False,
      configure_notify_received = False, position = GTK_WIN_POS_NONE,
      window_type = GTK_WINDOW_TOPLEVEL, resizable = True, gravity = 1,
      allocation = \<lparr>rect_x = 0, rect_y = 0, rect_width = 100, rect_height = 100\<rparr>,
      toplevel = True, visible = True, mapped = True, resize_mode = GTK_RESIZE_QUEUE\<rparr>"

text \<open>The window after \<open>resize (200, 200)\<close> and one pass, and then after a further
  \<open>resize (300, 300)\<close>, no configure-notify having arrived.\<close>

definition ex_window_sent :: "GtkWindow" where
  "ex_window_sent =
     fst (gtk_window_move_resize gdk_hint_bits ex_env (fst (gtk_window_resize ex_window 200 200)))"

definition ex_window_resized_again :: "GtkWindow" where
  "ex_window_resized_again = fst (gtk_window_resize ex_window_sent 300 300)"

text \<open>The window once the position policy has been set to \<open>GTK_WIN_POS_CENTER_ALWAYS\<close>.\<close>

definition ex_window_center :: "GtkWindow" where
  "ex_window_center =
     ex_window\<lparr>position := GTK_WIN_POS_CENTER_ALWAYS,
               geometry_info := Some (ex_info\<lparr>position_constraints_changed := True\<rparr>)\<rparr>"


text \<open>Two outputs side by side, enumerated left to right, as the server reports them.\<close>

definition ex_output_left :: XRROutputInfo where
  "ex_output_left =
     \<lparr>out_id = 66, out_name = ''HDMI-1'', connection = RR_Connected,
      crtc = Some \<lparr>crtc_x = 0, crtc_y = 0, crtc_width = 1920, crtc_height = 1080\<rparr>,
      mm_width = 530, mm_height = 300\<rparr>"

definition ex_output_right :: XRROutputInfo where
  "ex_output_right =
     \<lparr>out_id = 67, out_name = ''DP-1'', connection = RR_Connected,
      crtc = Some \<lparr>crtc_x = 1920, crtc_y = 0, crtc_width = 1920, crtc_height = 1080\<rparr>,
      mm_width = 530, mm_height = 300\<rparr>"

definition ex_platform :: x11_platform where
  "ex_platform =
     \<lparr>G_ENABLE_DEBUG = False, debug_xinerama = False,
      WidthOfScreen = 3840, HeightOfScreen = 1080,
      HAVE_RANDR = True, have_randr13 = True,
      resources = Some [ex_output_left, ex_output_right], primary_output = X_None,
      xinerama_extension = False,
      HAVE_SOLARIS_XINERAMA = False, solaris_state = False, solaris_info = None,
      HAVE_XFREE_XINERAMA = False, xfree_active = False, xfree_screens = None\<rparr>"

text \<open>The same display with the right output enumerated first; with the right output
  reported as primary; with the right output named as a laptop panel; and with that
  panel while the server reports a primary output that drives no monitor.\<close>

definition ex_platform_reversed :: x11_platform where
  "ex_platform_reversed = ex_platform\<lparr>resources := Some [ex_output_right, ex_output_left]\<rparr>"

definition ex_platform_primary_right :: x11_platform where
  "ex_platform_primary_right = ex_platform\<lparr>primary_output := 67\<rparr>"

definition ex_output_panel :: XRROutputInfo where
  "ex_output_panel = ex_output_right\<lparr>out_name := ''LVDS1''\<rparr>"

definition ex_platform_panel :: x11_platform where
  "ex_platform_panel = ex_platform\<lparr>resources := Some [ex_output_left, ex_output_panel]\<rparr>"

definition ex_platform_absent_primary :: x11_platform where
  "ex_platform_absent_primary = ex_platform_panel\<lparr>primary_output := 99\<rparr>"

text \<open>The display with a disconnected output enumerated before the two others.\<close>

definition ex_output_off :: XRROutputInfo where
  "ex_output_off =
     ex_output_left\<lparr>out_id := 65, out_name := ''VGA-1'', connection := RR_Disconnected\<rparr>"

definition ex_platform_first_off :: x11_platform where
  "ex_platform_first_off =
     ex_platform\<lparr>resources := Some [ex_output_off, ex_output_left, ex_output_right]\<rparr>"

text \<open>Hints with a NaN as lower aspect bound, and hints with all fields zero but the
  lower aspect bound, which is the negative zero.\<close>

definition ex_geometry_nan :: GdkGeometry where
  "ex_geometry_nan = zero_geometry\<lparr>min_aspect := 0x7FF8000000000000\<rparr>"

definition ex_geometry_negative_zero :: GdkGeometry where
  "ex_geometry_negative_zero = zero_geometry\<lparr>min_aspect := 0x8000000000000000\<rparr>"

definition ex_screen :: GdkX11Screen where
  "ex_screen = \<lparr>monitors = [], primary_monitor = 0\<rparr>"

definition ex_monitors :: "GdkX11Monitor list" where
  "ex_monitors = collect_monitors [ex_output_left, ex_output_right]"

definition ex_monitors_panel :: "GdkX11Monitor list" where
  "ex_monitors_panel = collect_monitors [ex_output_left, ex_output_panel]"

text \<open>The screen as discovery leaves it, and a screen whose stored first monitor has
  another physical width than the one discovery will find.\<close>

definition ex_screen_found :: GdkX11Screen where
  "ex_screen_found = init_multihead insertion_sort ex_platform ex_screen"

definition ex_screen_stale :: GdkX11Screen where
  "ex_screen_stale =
     ex_screen_found\<lparr>monitors :=
       (monitors ex_screen_found)[0 := (monitors ex_screen_found ! 0)\<lparr>width_mm := 531\<rparr>]\<rparr>"

section \<open>Geometry hint equivalence\<close>

lemma double_eq_sym: "double_eq a b \<longleftrightarrow> double_eq b a"
  by (auto simp: double_eq_def)

lemma double_eq_refl: "double_eq a a \<longleftrightarrow> \<not> double_is_nan a"
  by (simp add: double_eq_def)

lemma compare_hints_iff:
  "gtk_window_compare_hints hb ga fa gb fb \<longleftrightarrow>
     fa = fb \<and>
     (fa AND GDK_HINT_MIN_SIZE hb \<noteq> 0 \<longrightarrow>
        min_width ga = min_width gb \<and> min_height ga = min_height gb) \<and>
     (fa AND GDK_HINT_MAX_SIZE hb \<noteq> 0 \<longrightarrow>
        max_width ga = max_width gb \<and> max_height ga = max_height gb) \<and>
     (fa AND GDK_HINT_BASE_SIZE hb \<noteq> 0 \<longrightarrow>
        base_width ga = base_width gb \<and> base_height ga = base_height gb) \<and>
     (fa AND GDK_HINT_ASPECT hb \<noteq> 0 \<longrightarrow>
        double_eq (min_aspect ga) (min_aspect gb) \<and>
        double_eq (max_aspect ga) (max_aspect gb)) \<and>
     (fa AND GDK_HINT_RESIZE_INC hb \<noteq> 0 \<longrightarrow>
        width_inc ga = width_inc gb \<and> height_inc ga = height_inc gb) \<and>
     (fa AND GDK_HINT_WIN_GRAVITY hb \<noteq> 0 \<longrightarrow> win_gravity ga = win_gravity gb)"
  by (auto simp: gtk_window_compare_hints_def double_ne_def)

text \<open>
  Claim C6, as stated, fails: the aspect bounds are C doubles compared with \<open>!=\<close>, and
  a NaN differs from itself.  Hints whose lower aspect bound is a NaN, compared with
  themselves under the aspect flag, are reported as different.
\<close>

theorem compare_hints_nan_counterexample:
  "(16 :: guint) AND GDK_HINT_ASPECT gdk_hint_bits \<noteq> 0 \<and>
   \<not> gtk_window_compare_hints gdk_hint_bits ex_geometry_nan 16 ex_geometry_nan 16"
  by code_simp

text \<open>
  Claim C6, as amended.  \<open>gtk_window_compare_hints\<close> returns true exactly when the two
  flag sets are equal and, for each of the flags min size, max size, base size, aspect,
  resize increments and gravity that is present, the fields under that flag are equal:
  the integer fields and the gravity as values, the two aspect bounds as doubles under
  the C relation \<open>==\<close> (neither is a NaN, and they have the same bits or are both
  zeros).  Hints compared with themselves give true exactly when the aspect flag is
  absent or neither aspect bound is a NaN.  Changing one integer field or the gravity
  under a present flag to a different value, or one aspect bound under the aspect flag
  to a double that is not \<open>==\<close> to it, all else equal, makes it return false.
\<close>

theorem compare_hints_exact:
  "(gtk_window_compare_hints hb ga fa gb fb \<longleftrightarrow>
      fa = fb \<and>
      (fa AND GDK_HINT_MIN_SIZE hb \<noteq> 0 \<longrightarrow>
         min_width ga = min_width gb \<and> min_height ga = min_height gb) \<and>
      (fa AND GDK_HINT_MAX_SIZE hb \<noteq> 0 \<longrightarrow>
         max_width ga = max_width gb \<and> max_height ga = max_height gb) \<and>
      (fa AND GDK_HINT_BASE_SIZE hb \<noteq> 0 \<longrightarrow>
         base_width ga = base_width gb \<and> base_height ga = base_height gb) \<and>
      (fa AND GDK_HINT_ASPECT hb \<noteq> 0 \<longrightarrow>
         double_eq (min_aspect ga) (min_aspect gb) \<and>
         double_eq (max_aspect ga) (max_aspect gb)) \<and>
      (fa AND GDK_HINT_RESIZE_INC hb \<noteq> 0 \<longrightarrow>
         width_inc ga = width_inc gb \<and> height_inc ga = height_inc gb) \<and>
      (fa AND GDK_HINT_WIN_GRAVITY hb \<noteq> 0 \<longrightarrow> win_gravity ga = win_gravity gb)) \<and>
   (gtk_window_compare_hints hb ga fa ga fa \<longleftrightarrow>
      (fa AND GDK_HINT_ASPECT hb \<noteq> 0 \<longrightarrow>
         \<not> double_is_nan (min_aspect ga) \<and> \<not> double_is_nan (max_aspect ga))) \<and>
   (fa AND GDK_HINT_MIN_SIZE hb \<noteq> 0 \<and> v \<noteq> min_width ga \<longrightarrow>
      \<not> gtk_window_compare_hints hb ga fa (ga\<lparr>min_width := v\<rparr>) fa) \<and>
   (fa AND GDK_HINT_MIN_SIZE hb \<noteq> 0 \<and> v \<noteq> min_height ga \<longrightarrow>
      \<not> gtk_window_compare_hints hb ga fa (ga\<lparr>min_height := v\<rparr>) fa) \<and>
   (fa AND GDK_HINT_MAX_SIZE hb \<noteq> 0 \<and> v \<noteq> max_width ga \<longrightarrow>
      \<not> gtk_window_compare_hints hb ga fa (ga\<lparr>max_width := v\<rparr>) fa) \<and>
   (fa AND GDK_HINT_MAX_SIZE hb \<noteq> 0 \<and> v \<noteq> max_height ga \<longrightarrow>
      \<not> gtk_window_compare_hints hb ga fa (ga\<lparr>max_height := v\<rparr>) fa) \<and>
   (fa AND GDK_HINT_BASE_SIZE hb \<noteq> 0 \<and> v \<noteq> base_width ga \<longrightarrow>
      \<not> gtk_window_compare_hints hb ga fa (ga\<lparr>base_width := v\<rparr>) fa) \<and>
   (fa AND GDK_HINT_BASE_SIZE hb \<noteq> 0 \<and> v \<noteq> base_height ga \<longrightarrow>
      \<not> gtk_window_compare_hints hb ga fa (ga\<lparr>base_height := v\<rparr>) fa) \<and>
   (fa AND GDK_HINT_ASPECT hb \<noteq> 0 \<and> double_ne d (min_aspect ga) \<longrightarrow>
      \<not> gtk_window_compare_hints hb ga fa (ga\<lparr>min_aspect := d\<rparr>) fa) \<and>
   (fa AND GDK_HINT_ASPECT hb \<noteq> 0 \<and> double_ne d (max_aspect ga) \<longrightarrow>
      \<not> gtk_window_compare_hints hb ga fa (ga\<lparr>max_aspect := d\<rparr>) fa) \<and>
   (fa AND GDK_HINT_RESIZE_INC hb \<noteq> 0 \<and> v \<noteq> width_inc ga \<longrightarrow>
      \<not> gtk_window_compare_hints hb ga fa (ga\<lparr>width_inc := v\<rparr>) fa) \<and>
   (fa AND GDK_HINT_RESIZE_INC hb \<noteq> 0 \<and> v \<noteq> height_inc ga \<longrightarrow>
      \<not> gtk_window_compare_hints hb ga fa (ga\<lparr>height_inc := v\<rparr>) fa) \<and>
   (fa AND GDK_HINT_WIN_GRAVITY hb \<noteq> 0 \<and> n \<noteq> win_gravity ga \<longrightarrow>
      \<not> gtk_window_compare_hints hb ga fa (ga\<lparr>win_gravity := n\<rparr>) fa)"
  by (simp add: compare_hints_iff double_eq_refl double_ne_def double_eq_sym [of d]) auto

theorem compare_hints_exact_witness:
  "(126 :: guint) AND GDK_HINT_MIN_SIZE gdk_hint_bits \<noteq> 0 \<and>
   (126 :: guint) AND GDK_HINT_MAX_SIZE gdk_hint_bits \<noteq> 0 \<and>
   (126 :: guint) AND GDK_HINT_BASE_SIZE gdk_hint_bits \<noteq> 0 \<and>
   (126 :: guint) AND GDK_HINT_ASPECT gdk_hint_bits \<noteq> 0 \<and>
   (126 :: guint) AND GDK_HINT_RESIZE_INC gdk_hint_bits \<noteq> 0 \<and>
   (126 :: guint) AND GDK_HINT_WIN_GRAVITY gdk_hint_bits \<noteq> 0 \<and>
   \<not> double_is_nan (min_aspect ex_geometry) \<and> \<not> double_is_nan (max_aspect ex_geometry) \<and>
   (51 :: gint) \<noteq> min_width ex_geometry \<and> (51 :: gint) \<noteq> min_height ex_geometry \<and>
   (51 :: gint) \<noteq> max_width ex_geometry \<and> (51 :: gint) \<noteq> max_height ex_geometry \<and>
   (51 :: gint) \<noteq> base_width ex_geometry \<and> (51 :: gint) \<noteq> base_height ex_geometry \<and>
   (51 :: gint) \<noteq> width_inc ex_geometry \<and> (51 :: gint) \<noteq> height_inc ex_geometry \<and>
   double_ne 0x3FF0000000000000 (min_aspect ex_geometry) \<and>
   double_ne 0x3FF0000000000000 (max_aspect ex_geometry) \<and>
   (5 :: nat) \<noteq> win_gravity ex_geometry \<and>
   gtk_window_compare_hints gdk_hint_bits ex_geometry 126 ex_geometry 126 \<and>
   \<not> gtk_window_compare_hints gdk_hint_bits ex_geometry 126 (ex_geometry\<lparr>min_width := 51\<rparr>) 126 \<and>
   \<not> gtk_window_compare_hints gdk_hint_bits ex_geometry 126 (ex_geometry\<lparr>min_height := 51\<rparr>) 126 \<and>
   \<not> gtk_window_compare_hints gdk_hint_bits ex_geometry 126 (ex_geometry\<lparr>max_width := 51\<rparr>) 126 \<and>
   \<not> gtk_window_compare_hints gdk_hint_bits ex_geometry 126 (ex_geometry\<lparr>max_height := 51\<rparr>) 126 \<and>
   \<not> gtk_window_compare_hints gdk_hint_bits ex_geometry 126 (ex_geometry\<lparr>base_width := 51\<rparr>) 126 \<and>
   \<not> gtk_window_compare_hints gdk_hint_bits ex_geometry 126 (ex_geometry\<lparr>base_height := 51\<rparr>) 126 \<and>
   \<not> gtk_window_compare_hints gdk_hint_bits ex_geometry 126
       (ex_geometry\<lparr>min_aspect := 0x3FF0000000000000\<rparr>) 126 \<and>
   \<not> gtk_window_compare_hints gdk_hint_bits ex_geometry 126
       (ex_geometry\<lparr>max_aspect := 0x3FF0000000000000\<rparr>) 126 \<and>
   \<not> gtk_window_compare_hints gdk_hint_bits ex_geometry 126 (ex_geometry\<lparr>width_inc := 51\<rparr>) 126 \<and>
   \<not> gtk_window_compare_hints gdk_hint_bits ex_geometry 126 (ex_geometry\<lparr>height_inc := 51\<rparr>) 126 \<and>
   \<not> gtk_window_compare_hints gdk_hint_bits ex_geometry 126 (ex_geometry\<lparr>win_gravity := 5\<rparr>) 126 \<and>
   \<not> gtk_window_compare_hints gdk_hint_bits ex_geometry 126 ex_geometry 94 \<and>
   double_eq (min_aspect zero_geometry) (min_aspect ex_geometry_negative_zero) \<and>
   gtk_window_compare_hints gdk_hint_bits zero_geometry 16 ex_geometry_negative_zero 16"
proof -
  have h: "(126 :: guint) AND GDK_HINT_MIN_SIZE gdk_hint_bits \<noteq> 0"
    "(126 :: guint) AND GDK_HINT_MAX_SIZE gdk_hint_bits \<noteq> 0"
    "(126 :: guint) AND GDK_HINT_BASE_SIZE gdk_hint_bits \<noteq> 0"
    "(126 :: guint) AND GDK_HINT_ASPECT gdk_hint_bits \<noteq> 0"
    "(126 :: guint) AND GDK_HINT_RESIZE_INC gdk_hint_bits \<noteq> 0"
    "(126 :: guint) AND GDK_HINT_WIN_GRAVITY gdk_hint_bits \<noteq> 0"
    "\<not> double_is_nan (min_aspect ex_geometry)" "\<not> double_is_nan (max_aspect ex_geometry)"
    "(51 :: gint) \<noteq> min_width ex_geometry" "(51 :: gint) \<noteq> min_height ex_geometry"
    "(51 :: gint) \<noteq> max_width ex_geometry" "(51 :: gint) \<noteq> max_height ex_geometry"
    "(51 :: gint) \<noteq> base_width ex_geometry" "(51 :: gint) \<noteq> base_height ex_geometry"
    "(51 :: gint) \<noteq> width_inc ex_geometry" "(51 :: gint) \<noteq> height_inc ex_geometry"
    "double_ne 0x3FF0000000000000 (min_aspect ex_geometry)"
    "double_ne 0x3FF0000000000000 (max_aspect ex_geometry)"
    "(5 :: nat) \<noteq> win_gravity ex_geometry"
    "(126 :: guint) \<noteq> 94"
    "(16 :: guint) AND GDK_HINT_MIN_SIZE gdk_hint_bits = 0"
    "(16 :: guint) AND GDK_HINT_MAX_SIZE gdk_hint_bits = 0"
    "(16 :: guint) AND GDK_HINT_BASE_SIZE gdk_hint_bits = 0"
    "(16 :: guint) AND GDK_HINT_RESIZE_INC gdk_hint_bits = 0"
    "(16 :: guint) AND GDK_HINT_WIN_GRAVITY gdk_hint_bits = 0"
    "double_eq (min_aspect zero_geometry) (min_aspect ex_geometry_negative_zero)"
    "double_eq (max_aspect zero_geometry) (max_aspect ex_geometry_negative_zero)"
    by code_simp+
  show ?thesis
    using h
      compare_hints_exact [where hb = gdk_hint_bits and ga = ex_geometry and fa = 126
        and gb = ex_geometry and fb = 126 and v = 51 and d = "0x3FF0000000000000" and n = 5]
      compare_hints_exact [where hb = gdk_hint_bits and ga = ex_geometry and fa = 126
        and gb = ex_geometry and fb = 94]
      compare_hints_exact [where hb = gdk_hint_bits and ga = zero_geometry and fa = 16
        and gb = ex_geometry_negative_zero and fb = 16]
    by blast
qed

section \<open>The configure event\<close>

text \<open>
  Claim C2.  A configure-notify for a toplevel window with no request in flight whose
  width and height equal the current allocation's is position-only noise: the handler
  returns \<open>TRUE\<close> with the window unchanged (so the allocation is kept and
  \<open>configure_notify_received\<close> is not set), and the only call it makes is
  \<open>gdk_window_configure_finished\<close>: no resize is queued.
\<close>

theorem configure_event_position_only:
  assumes "toplevel window" and "configure_request_count window = 0"
    and "event_width event = rect_width (allocation window)"
    and "event_height event = rect_height (allocation window)"
  shows "gtk_window_configure_event ph window event =
           (window, [gdk_window_configure_finished], True)"
  using assms by (simp add: gtk_window_configure_event_def)

theorem configure_event_position_only_witness:
  "toplevel ex_window \<and> configure_request_count ex_window = 0 \<and>
   gtk_window_configure_event None ex_window
     \<lparr>event_x = 30, event_y = 40, event_width = 100, event_height = 100\<rparr> =
     (ex_window, [gdk_window_configure_finished], True)"
  using configure_event_position_only
    [of ex_window "\<lparr>event_x = 30, event_y = 40, event_width = 100, event_height = 100\<rparr>" None]
  by (simp add: ex_window_def)

section \<open>The move/resize pass\<close>

lemmas strong_congs = prod.case_cong option.case_cong if_cong GtkWindowPosition.case_cong

lemma get_geometry_info_create:
  "snd (gtk_window_get_geometry_info window True) =
     window\<lparr>geometry_info := Some (the_info window)\<rparr>"
  by (cases "geometry_info window") (simp_all add: gtk_window_get_geometry_info_def the_info_def)

lemma the_info_Some [simp]: "the_info (window\<lparr>geometry_info := Some i\<rparr>) = i"
  by (simp add: the_info_def)

lemma list_ex_size_append [simp]:
  "list_ex is_size_request (xs @ ys) = (list_ex is_size_request xs \<or> list_ex is_size_request ys)"
  by (auto simp add: list_ex_iff)

lemma list_ex_configure_append [simp]:
  "list_ex is_configure_request (xs @ ys) =
     (list_ex is_configure_request xs \<or> list_ex is_configure_request ys)"
  by (auto simp add: list_ex_iff)

lemma is_configure_request_simps [simp]:
  "is_configure_request (gdk_window_set_geometry_hints g f) = False"
  "is_configure_request (gdk_window_move_resize x y w h) = True"
  "is_configure_request (gdk_window_resize w h) = True"
  "is_configure_request (gdk_window_move x y) = True"
  "is_configure_request (gtk_widget_size_allocate r) = False"
  "is_configure_request set_grip_position = False"
  "is_configure_request update_grip_visibility = False"
  "is_configure_request gdk_window_process_updates = False"
  "is_configure_request gdk_window_configure_finished = False"
  "is_configure_request gtk_widget_queue_resize_no_redraw = False"
  "is_configure_request gtk_container_queue_resize = False"
  "is_configure_request gtk_container_dequeue_resize_handler = False"
  "is_configure_request gtk_container_resize_children = False"
  "is_configure_request gdk_window_freeze_toplevel_updates = False"
  "is_configure_request gdk_window_thaw_toplevel_updates = False"
  "is_configure_request gtk_widget_queue_draw = False"
  "is_configure_request gdk_window_invalidate_rect = False"
  by (simp_all add: is_configure_request_def)

subsection \<open>The pass does not read the in-flight counter\<close>

lemma compute_hints_count [simp]:
  "gtk_window_compute_hints hb env (window\<lparr>configure_request_count := c\<rparr>) =
   gtk_window_compute_hints hb env window"
  by (simp add: gtk_window_compute_hints_def cong: strong_congs)

lemma compute_size_count [simp]:
  "gtk_window_compute_configure_request_size hb env
     (window\<lparr>configure_request_count := c\<rparr>) g f =
   gtk_window_compute_configure_request_size hb env window g f"
  by (simp add: gtk_window_compute_configure_request_size_def cong: strong_congs)

lemma effective_position_count [simp]:
  "get_effective_position env (window\<lparr>configure_request_count := c\<rparr>) =
   get_effective_position env window"
  by (simp add: get_effective_position_def)

lemma constrain_position_count [simp]:
  "gtk_window_constrain_position env (window\<lparr>configure_request_count := c\<rparr>) =
   gtk_window_constrain_position env window"
  by (simp add: gtk_window_constrain_position_def fun_eq_iff)

lemma compute_request_count [simp]:
  "gtk_window_compute_configure_request hb env (window\<lparr>configure_request_count := c\<rparr>) =
   gtk_window_compute_configure_request hb env window"
  by (simp add: gtk_window_compute_configure_request_def cong: strong_congs)

lemma the_info_count [simp]:
  "the_info (window\<lparr>configure_request_count := c\<rparr>) = the_info window"
  by (simp add: the_info_def)

lemma count_info_swap:
  "window\<lparr>configure_request_count := c, geometry_info := g\<rparr> =
   window\<lparr>geometry_info := g, configure_request_count := c\<rparr>"
  by simp

lemma plan_count [simp]:
  "move_resize_plan hb env (window\<lparr>configure_request_count := c\<rparr>) =
   move_resize_plan hb env window"
  by (simp add: move_resize_plan_def get_geometry_info_create count_info_swap cong: strong_congs)

lemma set_position_hint_count [simp]:
  "set_position_hint hb env (window\<lparr>configure_request_count := c\<rparr>) =
   set_position_hint hb env window"
  by (simp add: set_position_hint_def get_geometry_info_create count_info_swap
      cong: strong_congs)

lemma move_resize_effects_count:
  "snd (gtk_window_move_resize hb env (window\<lparr>configure_request_count := c\<rparr>)) =
   snd (gtk_window_move_resize hb env window)"
  by (simp add: gtk_window_move_resize_def get_geometry_info_create Let_def count_info_swap
      cong: strong_congs)

subsection \<open>When the pass sends a request\<close>

lemma move_resize_size_request_iff:
  "list_ex is_size_request (snd (gtk_window_move_resize hb env window)) \<longleftrightarrow>
     \<not> configure_notify_received window \<and>
     (configure_request_size_changed (move_resize_plan hb env window) \<or>
      hints_changed (move_resize_plan hb env window) \<or>
      set_position_hint hb env window) \<and>
     (rect_width (allocation window) \<noteq> rect_width (new_request (move_resize_plan hb env window)) \<or>
      rect_height (allocation window) \<noteq>
        rect_height (new_request (move_resize_plan hb env window)))"
  by (simp add: gtk_window_move_resize_def get_geometry_info_create Let_def split: prod.splits)

lemma move_resize_configure_request_only_if:
  "list_ex is_configure_request (snd (gtk_window_move_resize hb env window)) \<longrightarrow>
     \<not> configure_notify_received window \<and>
     (configure_request_size_changed (move_resize_plan hb env window) \<or>
      configure_request_pos_changed (move_resize_plan hb env window) \<or>
      hints_changed (move_resize_plan hb env window) \<or>
      set_position_hint hb env window)"
  by (simp add: gtk_window_move_resize_def get_geometry_info_create Let_def split: prod.splits)

lemma move_resize_count:
  "configure_request_count (fst (gtk_window_move_resize hb env window)) =
     (if list_ex is_size_request (snd (gtk_window_move_resize hb env window)) \<and>
         window_type window \<noteq> GTK_WINDOW_POPUP
      then configure_request_count window + 1
      else configure_request_count window)"
  by (simp add: gtk_window_move_resize_def get_geometry_info_create Let_def split: prod.splits)

lemma configure_event_count:
  assumes "toplevel window"
  shows "uint (configure_request_count (fst (gtk_window_configure_event ph window event))) =
     max 0 (uint (configure_request_count window) - 1)"
proof (cases "0 < configure_request_count window")
  case True
  then have le: "1 \<le> configure_request_count window"
    by (simp add: word_less_nat_alt word_le_nat_alt)
  then have "uint (configure_request_count window - 1) = uint (configure_request_count window) - 1"
    by (simp add: uint_minus_simple_alt)
  moreover have "1 \<le> uint (configure_request_count window)"
    using le by (simp add: word_le_def)
  ultimately show ?thesis using True assms
    by (simp add: gtk_window_configure_event_def Let_def split: prod.splits)
next
  case False
  then have "configure_request_count window = 0" using word_neq_0_conv by blast
  then show ?thesis using assms
    by (simp add: gtk_window_configure_event_def Let_def split: prod.splits)
qed

lemma configure_event_count_embedded:
  "\<not> toplevel window \<Longrightarrow>
   configure_request_count (fst (gtk_window_configure_event ph window event)) =
     configure_request_count window"
  by (simp add: gtk_window_configure_event_def split: option.splits)

lemma resize_count:
  "configure_request_count (fst (gtk_window_resize window w h)) = configure_request_count window"
  by (simp add: gtk_window_resize_def Let_def)

lemma move_resize_notify:
  assumes "configure_notify_received window"
    and "configure_request_size_changed (move_resize_plan hb env window) \<or>
         configure_request_pos_changed (move_resize_plan hb env window)"
  shows "fst (gtk_window_move_resize hb env window) =
           window\<lparr>configure_notify_received := False, geometry_info := Some (the_info window)\<rparr>"
    and "gtk_widget_queue_resize_no_redraw \<in> set (snd (gtk_window_move_resize hb env window))"
    and "\<not> list_ex is_configure_request (snd (gtk_window_move_resize hb env window))"
  using assms
  by (auto simp add: gtk_window_move_resize_def get_geometry_info_create Let_def)

subsection \<open>A resize to the current size\<close>

lemma G_MAX_pos: "0 <s a \<Longrightarrow> G_MAX a 1 = a"
proof -
  assume "0 <s a"
  then have "0 < sint a" by (simp add: word_sless_alt)
  show ?thesis
  proof (cases "1 <s a")
    case True
    then show ?thesis by (simp add: G_MAX_def)
  next
    case False
    then have "sint a \<le> 1" by (simp add: word_sless_alt)
    with \<open>0 < sint a\<close> have "sint a = sint (1 :: gint)" by simp
    then have "a = 1" by (auto intro: signed_word_eqI)
    then show ?thesis by (simp add: G_MAX_def)
  qed
qed

lemma compute_hints_resize:
  "geometry_info window = Some info \<Longrightarrow>
   gtk_window_compute_hints hb env (fst (gtk_window_resize window w h)) =
   gtk_window_compute_hints hb env window"
  by (simp add: gtk_window_compute_hints_def gtk_window_resize_def the_info_def
      cong: strong_congs)

lemma resize_to_allocation_plan:
  assumes "no_other_change_pending hb env window"
  defines "window' \<equiv> fst (gtk_window_resize window (rect_width (allocation window))
                              (rect_height (allocation window)))"
  shows "\<not> configure_request_size_changed (move_resize_plan hb env window')"
    and "\<not> configure_request_pos_changed (move_resize_plan hb env window')"
    and "\<not> hints_changed (move_resize_plan hb env window')"
    and "\<not> set_position_hint hb env window'"
proof -
  from assms(1) obtain info where info: "geometry_info window = Some info"
    by (auto simp: no_other_change_pending_def split: option.splits)
  let ?aw = "rect_width (allocation window)" and ?ah = "rect_height (allocation window)"
  let ?info' = "info\<lparr>resize_width := ?aw, resize_height := ?ah, resize_is_geometry := False\<rparr>"
  have pos: "0 <s ?aw" "0 <s ?ah"
    using assms(1) info by (simp_all add: no_other_change_pending_def)
  have w': "window' = window\<lparr>geometry_info := Some ?info'\<rparr>"
    using pos info by (simp add: window'_def gtk_window_resize_def the_info_def)
  obtain g f where gf: "gtk_window_compute_hints hb env window = (g, f)" by fastforce
  have gf': "gtk_window_compute_hints hb env window' = (g, f)"
    using compute_hints_resize [OF info, of hb env ?aw ?ah] gf by (simp add: window'_def)
  have size: "gtk_window_compute_configure_request_size hb env window' g f = (?aw, ?ah)"
    using assms(1) info pos
    by (simp add: w' gtk_window_compute_configure_request_size_def no_other_change_pending_def
        G_MAX_pos)
  have constr: "gdk_window_constrain_size env g f ?aw ?ah = (?aw, ?ah)"
    using assms(1) info gf by (simp add: no_other_change_pending_def)
  have req: "gtk_window_compute_configure_request hb env window' =
      (\<lparr>rect_x = rect_x (configure_request (last_info info)),
        rect_y = rect_y (configure_request (last_info info)),
        rect_width = ?aw, rect_height = ?ah\<rparr>, g, f)"
    using assms(1) info
    by (simp add: gtk_window_compute_configure_request_def gf' size constr)
       (simp add: w' no_other_change_pending_def)
  have same: "gtk_window_compare_hints hb (last_geometry (last_info info))
                (last_flags (last_info info)) g f"
    using assms(1) info gf by (simp add: no_other_change_pending_def)
  have flags: "\<not> need_default_position window" "\<not> initial_pos_set info"
    "\<not> position_constraints_changed info"
    "rect_width (configure_request (last_info info)) = ?aw"
    "rect_height (configure_request (last_info info)) = ?ah"
    using assms(1) info by (simp_all add: no_other_change_pending_def)
  have plan: "move_resize_plan hb env window' =
      \<lparr>new_request = \<lparr>rect_x = rect_x (configure_request (last_info info)),
        rect_y = rect_y (configure_request (last_info info)),
        rect_width = ?aw, rect_height = ?ah\<rparr>, new_geometry = g, new_flags = f,
       configure_request_size_changed = False, configure_request_pos_changed = False,
       hints_changed = False\<rparr>"
    using req same flags
    by (simp add: move_resize_plan_def get_geometry_info_create)
       (simp add: w' req same flags Let_def)
  show "\<not> configure_request_size_changed (move_resize_plan hb env window')"
    and "\<not> configure_request_pos_changed (move_resize_plan hb env window')"
    and "\<not> hints_changed (move_resize_plan hb env window')"
    by (simp_all add: plan)
  show "\<not> set_position_hint hb env window'"
    using flags by (simp add: set_position_hint_def get_geometry_info_create plan) (simp add: w')
qed

section \<open>The monitor order\<close>

lemma sint_diff_in_range:
  fixes a b :: gint
  assumes "- (2 ^ 30) \<le> sint a" "sint a < 2 ^ 30" "- (2 ^ 30) \<le> sint b" "sint b < 2 ^ 30"
  shows "sint (a - b) = sint a - sint b"
proof -
  have "sint (a - b) = signed_take_bit (LENGTH(32) - 1) (sint a - sint b)"
    by (rule sint_word_ariths)
  also have "\<dots> = sint a - sint b"
    using assms by (intro signed_take_bit_int_eq_self) auto
  finally show ?thesis .
qed

lemma sint_neg_diff_in_range:
  fixes a b :: gint
  assumes "- (2 ^ 30) \<le> sint a" "sint a < 2 ^ 30" "- (2 ^ 30) \<le> sint b" "sint b < 2 ^ 30"
  shows "sint (- (a - b)) = sint b - sint a"
proof -
  have "- (a - b) = b - a" by simp
  then show ?thesis using sint_diff_in_range [OF assms(3,4,1,2)] by simp
qed

lemma sint_eq_iff: "sint (a :: gint) = sint b \<longleftrightarrow> a = b"
  by (auto intro: signed_word_eqI)

lemma compare_le_key:
  assumes "coords_in_range a" "coords_in_range b"
  shows "(monitor_compare_function a b \<le>s 0) = (monitor_key a \<le> monitor_key b)"
  using assms
  unfolding coords_in_range_def monitor_compare_function_def monitor_key_def
  by (auto simp: word_sle_eq sint_diff_in_range sint_neg_diff_in_range sint_eq_iff
      less_eq_prod_def less_prod_def)

lemma compare_less_before:
  assumes "coords_in_range a" "coords_in_range b"
  shows "(monitor_compare_function a b <s 0) = spec_monitor_before a b"
  using assms
  unfolding coords_in_range_def monitor_compare_function_def spec_monitor_before_def
  by (auto simp: word_sless_alt sint_diff_in_range sint_neg_diff_in_range sint_eq_iff)

lemma compare_zero_geometry:
  "(monitor_compare_function a b = 0) = (geometry a = geometry b)"
  unfolding monitor_compare_function_def
  by (auto intro: GdkRectangle.equality)

lemma key_eq_geometry: "monitor_key a = monitor_key b \<longleftrightarrow> geometry a = geometry b"
  unfolding monitor_key_def
  by (auto simp: sint_eq_iff intro: GdkRectangle.equality)

lemma sorted_by_compare_key:
  assumes "\<forall>m \<in> set xs. coords_in_range m"
  shows "sorted_by_compare xs = sorted (map monitor_key xs)"
proof -
  have "sorted_wrt (\<lambda>a b. monitor_compare_function a b \<le>s 0) xs =
        sorted_wrt (\<lambda>a b. monitor_key a \<le> monitor_key b) xs"
    using assms
    by (auto elim!: sorted_wrt_mono_rel [rotated] simp: compare_le_key)
  then show ?thesis
    by (simp add: sorted_by_compare_def sorted_map)
qed

lemma sorted_arrangement_unique:
  assumes "\<forall>m \<in> set xs. coords_in_range m"
    and "sorted_by_compare xs" and "sorted_by_compare ys" and "mset xs = mset ys"
  shows "map geometry xs = map geometry ys"
proof -
  have sy: "\<forall>m \<in> set ys. coords_in_range m"
    using assms(1,4) by (metis set_mset_mset)
  have "sorted (map monitor_key xs)" "sorted (map monitor_key ys)"
    using assms sy by (simp_all add: sorted_by_compare_key)
  moreover have "mset (map monitor_key xs) = mset (map monitor_key ys)"
    using assms(4) by simp
  ultimately have keys: "map monitor_key xs = map monitor_key ys"
    by (metis properties_for_sort)
  have len: "length xs = length ys"
    using assms(4) by (metis size_mset)
  show ?thesis
  proof (rule nth_equalityI)
    show "length (map geometry xs) = length (map geometry ys)" using len by simp
  next
    fix i assume "i < length (map geometry xs)"
    then have i: "i < length xs" "i < length ys" using len by simp_all
    then have "monitor_key (xs ! i) = monitor_key (ys ! i)"
      using keys by (metis nth_map)
    then show "map geometry xs ! i = map geometry ys ! i"
      using i by (simp add: key_eq_geometry)
  qed
qed

lemma compare_trans:
  assumes "coords_in_range a" "coords_in_range b" "coords_in_range c"
    and "monitor_compare_function a b \<le>s 0" "monitor_compare_function b c \<le>s 0"
  shows "monitor_compare_function a c \<le>s 0"
  using assms by (simp add: compare_le_key)

lemma compare_total:
  assumes "coords_in_range a" "coords_in_range b"
  shows "monitor_compare_function a b \<le>s 0 \<or> monitor_compare_function b a \<le>s 0"
  using assms by (auto simp add: compare_le_key)

lemma compare_antisym:
  assumes "coords_in_range a" "coords_in_range b"
    and "monitor_compare_function a b \<le>s 0" "monitor_compare_function b a \<le>s 0"
  shows "geometry a = geometry b"
  using assms by (simp add: compare_le_key flip: key_eq_geometry)

lemma randr13_monitors:
  "monitors (snd (init_randr13 srt p s)) =
     (if HAVE_RANDR p \<and> have_randr13 p \<and> resources p \<noteq> None \<and>
         \<not> randr12_compat (the (resources p))
      then srt (collect_monitors (the (resources p))) else monitors s)"
  by (auto simp: init_randr13_def Let_def split: option.splits)

lemma sint_ucast_16:
  "0 \<le> sint (ucast (w :: 16 word) :: gint) \<and> sint (ucast w :: gint) < 2 ^ 16"
proof -
  have u: "uint (ucast w :: gint) = uint w"
    by (simp add: uint_up_ucast is_up)
  have b: "0 \<le> uint w \<and> uint w < 2 ^ 16"
    using uint_lt2p [of w] by simp
  have "sint (ucast w :: gint) = signed_take_bit (LENGTH(32) - Suc 0) (uint (ucast w :: gint))"
    by (rule sint_uint)
  also have "\<dots> = uint w"
  proof -
    have "- (2 ^ (LENGTH(32) - Suc 0)) \<le> uint w"
      using uint_ge_0 [of w] by (simp add: order_trans [where y = 0])
    moreover have "uint w < 2 ^ (LENGTH(32) - Suc 0)"
      using b by simp
    ultimately show ?thesis
      unfolding u by (rule signed_take_bit_int_eq_self)
  qed
  finally show ?thesis using b by simp
qed

lemma sint_scast_16:
  "- (2 ^ 15) \<le> sint (scast (w :: 16 word) :: gint) \<and> sint (scast w :: gint) < 2 ^ 15"
proof -
  have "sint (scast w :: gint) = sint w"
    by (simp add: sint_up_scast is_up)
  moreover have "- (2 ^ 15) \<le> sint w \<and> sint w < 2 ^ 15"
    using sint_ge [of w] sint_lt [of w] by simp
  ultimately show ?thesis by simp
qed

lemma crtc_monitor_in_range:
  "coords_in_range
     \<lparr>geometry = \<lparr>rect_x = scast (crtc_x c), rect_y = scast (crtc_y c),
                   rect_width = ucast (crtc_width c), rect_height = ucast (crtc_height c)\<rparr>,
      mon_output = i, width_mm = w, height_mm = h, output_name = n, manufacturer = f\<rparr>"
  using sint_scast_16 [of "crtc_x c"] sint_scast_16 [of "crtc_y c"]
    sint_ucast_16 [of "crtc_width c"] sint_ucast_16 [of "crtc_height c"]
  by (simp add: coords_in_range_def)

lemma collect_monitors_in_range:
  "m \<in> set (collect_monitors outs) \<Longrightarrow> coords_in_range m"
  by (induction outs) (auto simp: crtc_monitor_in_range split: if_splits option.splits)

lemma compare_less_key:
  assumes "coords_in_range a" "coords_in_range b"
  shows "(monitor_compare_function a b <s 0) = (monitor_key a < monitor_key b)"
proof -
  have "(monitor_compare_function a b <s 0) =
        (monitor_compare_function a b \<le>s 0 \<and> monitor_compare_function a b \<noteq> 0)"
    by (rule signed.less_le)
  also have "\<dots> = (monitor_key a \<le> monitor_key b \<and> monitor_key a \<noteq> monitor_key b)"
    using assms by (simp add: compare_le_key compare_zero_geometry key_eq_geometry)
  finally show ?thesis by (simp add: less_le)
qed

lemma compare_greater_key:
  assumes "coords_in_range a" "coords_in_range b"
  shows "(0 <s monitor_compare_function a b) = (monitor_key b < monitor_key a)"
proof -
  have "(0 <s monitor_compare_function a b) = (\<not> monitor_compare_function a b \<le>s 0)"
    by (simp add: signed.not_le)
  then show ?thesis using assms by (simp add: compare_le_key not_le)
qed

lemma sorted_by_compare_spec:
  assumes "\<forall>m \<in> set xs. coords_in_range m" and "sorted_by_compare xs"
  shows "sorted_wrt (\<lambda>m n. \<not> spec_monitor_before n m) xs"
proof -
  have "sorted_wrt (\<lambda>a b. monitor_compare_function a b \<le>s 0) xs"
    using assms(2) by (simp add: sorted_by_compare_def)
  then show ?thesis
  proof (rule sorted_wrt_mono_rel [rotated])
    fix a b assume ab: "a \<in> set xs" "b \<in> set xs" "monitor_compare_function a b \<le>s 0"
    then have r: "coords_in_range a" "coords_in_range b" using assms(1) by auto
    have "monitor_key a \<le> monitor_key b" using ab(3) r by (simp add: compare_le_key)
    then have "\<not> monitor_key b < monitor_key a" by auto
    then show "\<not> spec_monitor_before b a"
      using r by (simp add: compare_less_key flip: compare_less_before)
  qed
qed

lemma sorted_arrangement_identical:
  assumes "\<forall>m \<in> set xs. coords_in_range m"
    and "sorted_by_compare xs" and "sorted_by_compare ys" and "mset xs = mset ys"
    and "distinct (map geometry xs)"
  shows "xs = ys"
proof -
  have g: "map geometry xs = map geometry ys"
    using assms(1-4) by (rule sorted_arrangement_unique)
  have "inj_on geometry (set xs)"
    using assms(5) by (simp add: distinct_map)
  moreover have "set ys = set xs"
    using assms(4) by (metis set_mset_mset)
  ultimately have "inj_on geometry (set xs \<union> set ys)" by simp
  then show ?thesis using g by (simp add: inj_on_map_eq_map)
qed

lemma multihead_monitors:
  "monitors (init_multihead srt p s) = monitors (init_multihead srt p s')"
  by (auto simp: init_multihead_def init_fake_xinerama_def init_randr13_def
      init_solaris_xinerama_def init_xfree_xinerama_def single_monitor_def Let_def
      split: option.splits bool.splits)

text \<open>
  Claim C7.  On the monitors that discovery builds from the outputs the server reports,
  \<open>monitor_compare_function\<close> is negative exactly when the first monitor comes before
  the second by ascending x, then ascending y, then descending height, then descending
  width, positive exactly when the second comes before the first, and zero exactly when
  the two rectangles are equal; the comparison is total, antisymmetric (on rectangles)
  and transitive.  So an array sorted with it is in that order; a repeated discovery
  stores the same monitor array whatever the screen held before; the \<open>init_randr13\<close>
  path stores the sorted array of the reported monitors; and any two sorts that return a
  comparator-sorted permutation produce the same sequence of rectangles, and the very
  same array when no two monitors share a rectangle (monitors with equal rectangles
  compare as equal, and their relative order is the sort's).
\<close>

theorem monitor_order_total:
  "(a \<in> set (collect_monitors outs) \<and> b \<in> set (collect_monitors outs) \<and>
    c \<in> set (collect_monitors outs) \<longrightarrow>
      (monitor_compare_function a b <s 0 \<longleftrightarrow> spec_monitor_before a b) \<and>
      (0 <s monitor_compare_function a b \<longleftrightarrow> spec_monitor_before b a) \<and>
      (monitor_compare_function a b = 0 \<longleftrightarrow> geometry a = geometry b) \<and>
      (monitor_compare_function a b \<le>s 0 \<or> monitor_compare_function b a \<le>s 0) \<and>
      (monitor_compare_function a b \<le>s 0 \<and> monitor_compare_function b a \<le>s 0 \<longrightarrow>
         geometry a = geometry b) \<and>
      (monitor_compare_function a b \<le>s 0 \<and> monitor_compare_function b c \<le>s 0 \<longrightarrow>
         monitor_compare_function a c \<le>s 0)) \<and>
   (g_array_sort_ok srt (collect_monitors outs) \<longrightarrow>
      sorted_wrt (\<lambda>m n. \<not> spec_monitor_before n m) (srt (collect_monitors outs))) \<and>
   monitors (init_multihead srt p s) = monitors (init_multihead srt p s') \<and>
   (randr13_reports p outs \<longrightarrow>
      monitors (snd (init_randr13 srt p s)) = srt (collect_monitors outs)) \<and>
   (g_array_sort_ok srt (collect_monitors outs) \<and>
    g_array_sort_ok srt' (collect_monitors outs) \<longrightarrow>
      map geometry (srt (collect_monitors outs)) = map geometry (srt' (collect_monitors outs)) \<and>
      (distinct (map geometry (collect_monitors outs)) \<longrightarrow>
         srt (collect_monitors outs) = srt' (collect_monitors outs)))"
proof -
  let ?ms = "collect_monitors outs"
  have r: "\<forall>m \<in> set ?ms. coords_in_range m"
    by (simp add: collect_monitors_in_range)
  have order: "(monitor_compare_function a b <s 0 \<longleftrightarrow> spec_monitor_before a b) \<and>
      (0 <s monitor_compare_function a b \<longleftrightarrow> spec_monitor_before b a) \<and>
      (monitor_compare_function a b = 0 \<longleftrightarrow> geometry a = geometry b) \<and>
      (monitor_compare_function a b \<le>s 0 \<or> monitor_compare_function b a \<le>s 0) \<and>
      (monitor_compare_function a b \<le>s 0 \<and> monitor_compare_function b a \<le>s 0 \<longrightarrow>
         geometry a = geometry b) \<and>
      (monitor_compare_function a b \<le>s 0 \<and> monitor_compare_function b c \<le>s 0 \<longrightarrow>
         monitor_compare_function a c \<le>s 0)"
    if "a \<in> set ?ms" "b \<in> set ?ms" "c \<in> set ?ms"
  proof -
    have ra: "coords_in_range a" and rb: "coords_in_range b" and rc: "coords_in_range c"
      using that r by auto
    have "(0 <s monitor_compare_function a b) = (monitor_compare_function b a <s 0)"
      using ra rb by (simp add: compare_greater_key compare_less_key)
    then show ?thesis
      using compare_less_before [OF ra rb] compare_less_before [OF rb ra]
        compare_zero_geometry [of a b] compare_total [OF ra rb]
        compare_antisym [OF ra rb] compare_trans [OF ra rb rc]
      by blast
  qed
  have sorted: "sorted_wrt (\<lambda>m n. \<not> spec_monitor_before n m) (srt ?ms)"
    if "g_array_sort_ok srt ?ms"
  proof -
    have "set (srt ?ms) = set ?ms"
      using that by (metis g_array_sort_ok_def set_mset_mset)
    then show ?thesis
      using that r by (intro sorted_by_compare_spec) (auto simp: g_array_sort_ok_def)
  qed
  have randr: "monitors (snd (init_randr13 srt p s)) = srt ?ms" if "randr13_reports p outs"
    using that by (simp add: randr13_monitors randr13_reports_def)
  have two: "map geometry (srt ?ms) = map geometry (srt' ?ms) \<and>
      (distinct (map geometry ?ms) \<longrightarrow> srt ?ms = srt' ?ms)"
    if ok: "g_array_sort_ok srt ?ms" "g_array_sort_ok srt' ?ms"
  proof -
    have m: "mset (srt ?ms) = mset (srt' ?ms)" "mset (srt ?ms) = mset ?ms"
      using ok by (simp_all add: g_array_sort_ok_def)
    have s: "sorted_by_compare (srt ?ms)" "sorted_by_compare (srt' ?ms)"
      using ok by (simp_all add: g_array_sort_ok_def)
    have rs: "\<forall>m \<in> set (srt ?ms). coords_in_range m"
      using r m(2) by (metis set_mset_mset)
    have g: "map geometry (srt ?ms) = map geometry (srt' ?ms)"
      using rs s m(1) by (rule sorted_arrangement_unique)
    have "srt ?ms = srt' ?ms" if d: "distinct (map geometry ?ms)"
    proof -
      have "mset (map geometry (srt ?ms)) = mset (map geometry ?ms)"
        using m(2) by simp
      then have "distinct (map geometry (srt ?ms))"
        using d by (metis mset_eq_imp_distinct_iff)
      then show ?thesis
        using rs s m(1) by (intro sorted_arrangement_identical)
    qed
    then show ?thesis using g by blast
  qed
  show ?thesis
    using order sorted randr two multihead_monitors [of srt p s s'] by blast
qed

theorem monitor_order_total_witness:
  "hd ex_monitors \<in> set ex_monitors \<and> last ex_monitors \<in> set ex_monitors \<and>
   randr13_reports ex_platform [ex_output_left, ex_output_right] \<and>
   g_array_sort_ok insertion_sort ex_monitors \<and>
   g_array_sort_ok (sort_key monitor_key) ex_monitors \<and>
   distinct (map geometry ex_monitors) \<and>
   monitor_compare_function (hd ex_monitors) (last ex_monitors) <s 0 \<and>
   spec_monitor_before (hd ex_monitors) (last ex_monitors) \<and>
   0 <s monitor_compare_function (last ex_monitors) (hd ex_monitors) \<and>
   monitor_compare_function (last ex_monitors) (last ex_monitors) \<le>s 0 \<and>
   monitor_compare_function (last ex_monitors) (last ex_monitors) = 0 \<and>
   monitors (snd (init_randr13 insertion_sort ex_platform ex_screen)) =
     insertion_sort ex_monitors \<and>
   monitors (init_multihead insertion_sort ex_platform ex_screen) =
     monitors (init_multihead insertion_sort ex_platform ex_screen_stale) \<and>
   insertion_sort ex_monitors = sort_key monitor_key ex_monitors"
proof -
  have h: "hd ex_monitors \<in> set ex_monitors" "last ex_monitors \<in> set ex_monitors"
    "randr13_reports ex_platform [ex_output_left, ex_output_right]"
    "g_array_sort_ok insertion_sort ex_monitors"
    "g_array_sort_ok (sort_key monitor_key) ex_monitors"
    "distinct (map geometry ex_monitors)"
    "spec_monitor_before (hd ex_monitors) (last ex_monitors)"
    by code_simp+
  show ?thesis
    using h
      monitor_order_total [where outs = "[ex_output_left, ex_output_right]"
        and a = "hd ex_monitors" and b = "last ex_monitors" and c = "last ex_monitors"
        and srt = insertion_sort and srt' = "sort_key monitor_key"
        and p = ex_platform and s = ex_screen and s' = ex_screen_stale]
      monitor_order_total [where outs = "[ex_output_left, ex_output_right]"
        and a = "last ex_monitors" and b = "hd ex_monitors" and c = "hd ex_monitors"]
      monitor_order_total [where outs = "[ex_output_left, ex_output_right]"
        and a = "last ex_monitors" and b = "last ex_monitors" and c = "last ex_monitors"]
    unfolding ex_monitors_def by blast
qed

section \<open>The primary monitor\<close>

lemma select_primary_break:
  assumes "\<forall>m' \<in> set pre. mon_output m' \<noteq> po \<and> \<not> (po = X_None \<and> lvds_name m')"
    and "mon_output m = po \<or> (po = X_None \<and> lvds_name m)"
  shows "select_primary po fo (pre @ m # post) i pm = i + length pre"
  using assms by (induction pre arbitrary: i pm) auto

lemma select_primary_keep:
  assumes "\<forall>m \<in> set ms. mon_output m \<noteq> po \<and> \<not> (po = X_None \<and> lvds_name m) \<and> mon_output m \<noteq> fo"
  shows "select_primary po fo ms i pm = pm"
  using assms by (induction ms arbitrary: i pm) auto

lemma select_primary_first_output:
  assumes "\<forall>m' \<in> set (pre @ m # post). mon_output m' \<noteq> po \<and> \<not> (po = X_None \<and> lvds_name m')"
    and "mon_output m = fo" and "\<forall>m' \<in> set post. mon_output m' \<noteq> fo"
  shows "select_primary po fo (pre @ m # post) i pm = i + length pre"
  using assms
proof (induction pre arbitrary: i pm)
  case Nil
  then show ?case by (simp add: select_primary_keep)
next
  case (Cons a pre)
  then show ?case by auto
qed

lemma mset_two:
  assumes "mset xs = mset [a, b]"
  shows "xs = [a, b] \<or> xs = [b, a]"
proof -
  have "length xs = 2" using assms by (metis size_mset length_Cons list.size(3) One_nat_def Suc_1)
  then obtain u v where xs: "xs = [u, v]"
    by (metis (no_types, opaque_lifting) One_nat_def Suc_1 length_0_conv length_Suc_conv)
  with assms have "{#u, v#} = {#a, b#}" by simp
  then show ?thesis unfolding xs
    by (auto simp: add_eq_conv_ex)
qed

lemma randr13_result:
  assumes "randr13_reports p outs"
  shows "init_randr13 srt p s =
     (srt (collect_monitors outs) \<noteq> [],
      s\<lparr>monitors := srt (collect_monitors outs),
        primary_monitor :=
          select_primary (primary_output p) (first_output outs) (srt (collect_monitors outs)) 0 0\<rparr>)"
  using assms by (simp add: init_randr13_def randr13_reports_def Let_def)

lemma randr13_primary:
  assumes "randr13_reports p outs"
  shows "primary_monitor (snd (init_randr13 srt p s)) =
     select_primary (primary_output p) (first_output outs)
       (monitors (snd (init_randr13 srt p s))) 0 0"
  using assms by (simp add: randr13_result)

lemma crtc_casts:
  "(scast (0 :: 16 word) :: gint) = 0" "(scast (1920 :: 16 word) :: gint) = 1920"
  "(ucast (1920 :: 16 word) :: gint) = 1920" "(ucast (1080 :: 16 word) :: gint) = 1080"
  by code_simp+

lemma side_by_side_sorted:
  assumes scen: "side_by_side_outputs oA oB"
    and outs: "outs = [oA, oB] \<or> outs = [oB, oA]"
    and srt: "g_array_sort_ok srt (collect_monitors outs)"
  shows "srt (collect_monitors outs) =
     [monitor_of oA \<lparr>rect_x = 0, rect_y = 0, rect_width = 1920, rect_height = 1080\<rparr>,
      monitor_of oB \<lparr>rect_x = 1920, rect_y = 0, rect_width = 1920, rect_height = 1080\<rparr>]"
proof -
  from scen have crtcs:
      "crtc oA = Some \<lparr>crtc_x = 0, crtc_y = 0, crtc_width = 1920, crtc_height = 1080\<rparr>"
      "crtc oB = Some \<lparr>crtc_x = 1920, crtc_y = 0, crtc_width = 1920, crtc_height = 1080\<rparr>"
    unfolding side_by_side_outputs_def by blast+
  from scen have conn: "connection oA \<noteq> RR_Disconnected" "connection oB \<noteq> RR_Disconnected"
    unfolding side_by_side_outputs_def by blast+
  define mA where "mA = monitor_of oA \<lparr>rect_x = 0, rect_y = 0, rect_width = 1920, rect_height = 1080\<rparr>"
  define mB where "mB = monitor_of oB \<lparr>rect_x = 1920, rect_y = 0, rect_width = 1920, rect_height = 1080\<rparr>"
  have coll: "collect_monitors [oA, oB] = [mA, mB]" "collect_monitors [oB, oA] = [mB, mA]"
    using crtcs conn by (simp_all add: mA_def mB_def monitor_of_def crtc_casts)
  have "mset (collect_monitors outs) = mset [mA, mB]"
    using outs coll by auto
  then have srt': "mset (srt (collect_monitors outs)) = mset [mA, mB]"
      "sorted_by_compare (srt (collect_monitors outs))"
    using srt unfolding g_array_sort_ok_def by simp_all
  have "\<not> monitor_compare_function mB mA \<le>s 0"
    by (simp add: monitor_compare_function_def mA_def mB_def monitor_of_def word_sle_eq)
  then have "\<not> sorted_by_compare [mB, mA]"
    by (simp add: sorted_by_compare_def)
  then have "srt (collect_monitors outs) = [mA, mB]"
    using srt'(2) mset_two [OF srt'(1)] by metis
  then show ?thesis by (simp add: mA_def mB_def)
qed

lemma side_by_side_primary:
  assumes scen: "side_by_side_outputs oA oB"
  shows "select_primary X_None (out_id oA)
     [monitor_of oA \<lparr>rect_x = 0, rect_y = 0, rect_width = 1920, rect_height = 1080\<rparr>,
      monitor_of oB \<lparr>rect_x = 1920, rect_y = 0, rect_width = 1920, rect_height = 1080\<rparr>] 0 0 = 0"
    and "select_primary X_None (out_id oB)
     [monitor_of oA \<lparr>rect_x = 0, rect_y = 0, rect_width = 1920, rect_height = 1080\<rparr>,
      monitor_of oB \<lparr>rect_x = 1920, rect_y = 0, rect_width = 1920, rect_height = 1080\<rparr>] 0 0 = 1"
proof -
  from scen have lvds: "\<not> g_ascii_strncasecmp_eq (out_name oA) ''LVDS'' 4"
      "\<not> g_ascii_strncasecmp_eq (out_name oB) ''LVDS'' 4"
    unfolding side_by_side_outputs_def by blast+
  from scen have ids: "out_id oA \<noteq> X_None" "out_id oB \<noteq> X_None" "out_id oA \<noteq> out_id oB"
    unfolding side_by_side_outputs_def by blast+
  show "select_primary X_None (out_id oA)
     [monitor_of oA \<lparr>rect_x = 0, rect_y = 0, rect_width = 1920, rect_height = 1080\<rparr>,
      monitor_of oB \<lparr>rect_x = 1920, rect_y = 0, rect_width = 1920, rect_height = 1080\<rparr>] 0 0 = 0"
    using lvds ids by (simp add: lvds_name_def monitor_of_def)
  show "select_primary X_None (out_id oB)
     [monitor_of oA \<lparr>rect_x = 0, rect_y = 0, rect_width = 1920, rect_height = 1080\<rparr>,
      monitor_of oB \<lparr>rect_x = 1920, rect_y = 0, rect_width = 1920, rect_height = 1080\<rparr>] 0 0 = 1"
    using lvds ids by (simp add: lvds_name_def monitor_of_def)
qed

text \<open>
  Claim C8, as stated, fails in two ways.  With the two outputs of the scenario
  enumerated right to left (no primary reported, no LVDS name), the sorted array still
  begins with the monitor at (0, 0), but the primary index is 1, the place of the first
  enumerated output.  And when the server reports a primary output that drives no
  monitor, a monitor named "LVDS1" is not preferred: the primary index is 0, the place
  of the first enumerated output, while the LVDS monitor is at index 1.
\<close>

theorem primary_selection_counterexample:
  "primary_output ex_platform_reversed = X_None \<and>
   \<not> list_ex lvds_name (monitors (snd (init_randr13 insertion_sort ex_platform_reversed ex_screen))) \<and>
   map geometry (monitors (snd (init_randr13 insertion_sort ex_platform_reversed ex_screen))) =
     [\<lparr>rect_x = 0, rect_y = 0, rect_width = 1920, rect_height = 1080\<rparr>,
      \<lparr>rect_x = 1920, rect_y = 0, rect_width = 1920, rect_height = 1080\<rparr>] \<and>
   primary_monitor (snd (init_randr13 insertion_sort ex_platform_reversed ex_screen)) = 1 \<and>
   primary_output ex_platform_absent_primary = 99 \<and>
   map mon_output (monitors (snd (init_randr13 insertion_sort ex_platform_absent_primary ex_screen))) =
     [66, 67] \<and>
   lvds_name (monitors (snd (init_randr13 insertion_sort ex_platform_absent_primary ex_screen)) ! 1) \<and>
   primary_monitor (snd (init_randr13 insertion_sort ex_platform_absent_primary ex_screen)) = 0"
  by code_simp

text \<open>
  Claim C8, as amended.  When RandR 1.3 reports the outputs, \<open>init_randr13\<close> walks the
  sorted monitor array.  A monitor ends the walk when it is driven by the output the
  server reports as primary, or when the server reports no primary output
  (\<open>None\<close>) and the monitor's name starts with "LVDS" in any case; the primary index
  is the index of the first monitor that ends the walk.  When no monitor ends it, which
  includes a reported primary output that drives no monitor whatever the names are, the
  primary index is the index of the last monitor driven by the first enumerated output,
  and 0 when that output drives no monitor.  For the two outputs of the scenario (regions
  of 1920x1080 at (0, 0) and (1920, 0), no primary reported, no LVDS name) and any sort
  that returns a comparator-sorted permutation, discovery succeeds with the monitor at
  (0, 0) first; the primary index is 0 when the output at (0, 0) is enumerated first and
  1 when the output at (1920, 0) is enumerated first.
\<close>

theorem primary_selection:
  "(randr13_reports p outs \<and> monitors (snd (init_randr13 srt p s)) = pre @ m # post \<longrightarrow>
      (mon_output m = primary_output p \<and>
       (\<forall>m' \<in> set pre. mon_output m' \<noteq> primary_output p \<and>
          \<not> (primary_output p = X_None \<and> lvds_name m')) \<longrightarrow>
         primary_monitor (snd (init_randr13 srt p s)) = length pre) \<and>
      (primary_output p = X_None \<and> lvds_name m \<and>
       (\<forall>m' \<in> set pre. mon_output m' \<noteq> X_None \<and> \<not> lvds_name m') \<longrightarrow>
         primary_monitor (snd (init_randr13 srt p s)) = length pre) \<and>
      ((\<forall>m' \<in> set (pre @ m # post). mon_output m' \<noteq> primary_output p \<and>
          \<not> (primary_output p = X_None \<and> lvds_name m')) \<and>
       mon_output m = first_output outs \<and>
       (\<forall>m' \<in> set post. mon_output m' \<noteq> first_output outs) \<longrightarrow>
         primary_monitor (snd (init_randr13 srt p s)) = length pre)) \<and>
   (randr13_reports p outs \<and>
    (\<forall>m' \<in> set (monitors (snd (init_randr13 srt p s))).
       mon_output m' \<noteq> primary_output p \<and>
       \<not> (primary_output p = X_None \<and> lvds_name m') \<and>
       mon_output m' \<noteq> first_output outs) \<longrightarrow>
      primary_monitor (snd (init_randr13 srt p s)) = 0) \<and>
   (side_by_side_outputs oA oB \<and> randr13_reports p outs \<and> primary_output p = X_None \<and>
    g_array_sort_ok srt (collect_monitors outs) \<longrightarrow>
      (outs = [oA, oB] \<longrightarrow>
         init_randr13 srt p s =
           (True, s\<lparr>monitors :=
              [monitor_of oA \<lparr>rect_x = 0, rect_y = 0, rect_width = 1920, rect_height = 1080\<rparr>,
               monitor_of oB \<lparr>rect_x = 1920, rect_y = 0, rect_width = 1920, rect_height = 1080\<rparr>],
              primary_monitor := 0\<rparr>)) \<and>
      (outs = [oB, oA] \<longrightarrow>
         init_randr13 srt p s =
           (True, s\<lparr>monitors :=
              [monitor_of oA \<lparr>rect_x = 0, rect_y = 0, rect_width = 1920, rect_height = 1080\<rparr>,
               monitor_of oB \<lparr>rect_x = 1920, rect_y = 0, rect_width = 1920, rect_height = 1080\<rparr>],
              primary_monitor := 1\<rparr>)))"
proof -
  let ?pm = "primary_monitor (snd (init_randr13 srt p s))"
  let ?ms = "monitors (snd (init_randr13 srt p s))"
  let ?po = "primary_output p"
  let ?fo = "first_output outs"
  have walk: "?pm = select_primary ?po ?fo (pre @ m # post) 0 0"
    if "randr13_reports p outs" "?ms = pre @ m # post"
    using randr13_primary [OF that(1), of srt s] that(2) by simp
  have c1: "?pm = length pre"
    if "randr13_reports p outs" "?ms = pre @ m # post" "mon_output m = ?po"
      "\<forall>m' \<in> set pre. mon_output m' \<noteq> ?po \<and> \<not> (?po = X_None \<and> lvds_name m')"
    using walk [OF that(1,2)] select_primary_break [of pre ?po m ?fo post 0 0] that(3,4)
    by simp
  have c2: "?pm = length pre"
    if "randr13_reports p outs" "?ms = pre @ m # post" "?po = X_None" "lvds_name m"
      "\<forall>m' \<in> set pre. mon_output m' \<noteq> X_None \<and> \<not> lvds_name m'"
    using walk [OF that(1,2)] select_primary_break [of pre ?po m ?fo post 0 0] that(3,4,5)
    by simp
  have c3: "?pm = length pre"
    if "randr13_reports p outs" "?ms = pre @ m # post"
      "\<forall>m' \<in> set (pre @ m # post). mon_output m' \<noteq> ?po \<and> \<not> (?po = X_None \<and> lvds_name m')"
      "mon_output m = ?fo" "\<forall>m' \<in> set post. mon_output m' \<noteq> ?fo"
    using walk [OF that(1,2)]
      select_primary_first_output [of pre m post ?po ?fo 0 0, OF that(3,4,5)]
    by simp
  have c4: "?pm = 0"
    if "randr13_reports p outs"
      "\<forall>m' \<in> set ?ms. mon_output m' \<noteq> ?po \<and> \<not> (?po = X_None \<and> lvds_name m') \<and>
         mon_output m' \<noteq> ?fo"
    using randr13_primary [OF that(1), of srt s]
      select_primary_keep [of ?ms ?po ?fo 0 0, OF that(2)]
    by simp
  have c5: "init_randr13 srt p s =
           (True, s\<lparr>monitors :=
              [monitor_of oA \<lparr>rect_x = 0, rect_y = 0, rect_width = 1920, rect_height = 1080\<rparr>,
               monitor_of oB \<lparr>rect_x = 1920, rect_y = 0, rect_width = 1920, rect_height = 1080\<rparr>],
              primary_monitor := 0\<rparr>)"
    if "side_by_side_outputs oA oB" "randr13_reports p outs" "?po = X_None"
      "g_array_sort_ok srt (collect_monitors outs)" "outs = [oA, oB]"
  proof -
    have "?fo = out_id oA" using that(5) by (simp add: first_output_def)
    then show ?thesis
      unfolding randr13_result [OF that(2)]
        side_by_side_sorted [OF that(1) disjI1 [OF that(5)] that(4)] that(3)
      by (simp add: side_by_side_primary [OF that(1)] del: select_primary.simps)
  qed
  have c6: "init_randr13 srt p s =
           (True, s\<lparr>monitors :=
              [monitor_of oA \<lparr>rect_x = 0, rect_y = 0, rect_width = 1920, rect_height = 1080\<rparr>,
               monitor_of oB \<lparr>rect_x = 1920, rect_y = 0, rect_width = 1920, rect_height = 1080\<rparr>],
              primary_monitor := 1\<rparr>)"
    if "side_by_side_outputs oA oB" "randr13_reports p outs" "?po = X_None"
      "g_array_sort_ok srt (collect_monitors outs)" "outs = [oB, oA]"
  proof -
    have "?fo = out_id oB" using that(5) by (simp add: first_output_def)
    then show ?thesis
      unfolding randr13_result [OF that(2)]
        side_by_side_sorted [OF that(1) disjI2 [OF that(5)] that(4)] that(3)
      by (simp add: side_by_side_primary [OF that(1)] del: select_primary.simps)
  qed
  show ?thesis
    using c1 c2 c3 c4 c5 c6 by blast
qed

theorem primary_selection_witness:
  "randr13_reports ex_platform_primary_right [ex_output_left, ex_output_right] \<and>
   monitors (snd (init_randr13 insertion_sort ex_platform_primary_right ex_screen)) =
     [hd ex_monitors] @ last ex_monitors # [] \<and>
   mon_output (last ex_monitors) = primary_output ex_platform_primary_right \<and>
   mon_output (hd ex_monitors) \<noteq> primary_output ex_platform_primary_right \<and>
   primary_monitor (snd (init_randr13 insertion_sort ex_platform_primary_right ex_screen)) = 1 \<and>
   randr13_reports ex_platform_panel [ex_output_left, ex_output_panel] \<and>
   monitors (snd (init_randr13 insertion_sort ex_platform_panel ex_screen)) =
     [hd ex_monitors_panel] @ last ex_monitors_panel # [] \<and>
   primary_output ex_platform_panel = X_None \<and> lvds_name (last ex_monitors_panel) \<and>
   mon_output (hd ex_monitors_panel) \<noteq> X_None \<and> \<not> lvds_name (hd ex_monitors_panel) \<and>
   primary_monitor (snd (init_randr13 insertion_sort ex_platform_panel ex_screen)) = 1 \<and>
   randr13_reports ex_platform_absent_primary [ex_output_left, ex_output_panel] \<and>
   monitors (snd (init_randr13 insertion_sort ex_platform_absent_primary ex_screen)) =
     [] @ hd ex_monitors_panel # [last ex_monitors_panel] \<and>
   mon_output (hd ex_monitors_panel) = first_output [ex_output_left, ex_output_panel] \<and>
   mon_output (last ex_monitors_panel) \<noteq> first_output [ex_output_left, ex_output_panel] \<and>
   mon_output (hd ex_monitors_panel) \<noteq> primary_output ex_platform_absent_primary \<and>
   mon_output (last ex_monitors_panel) \<noteq> primary_output ex_platform_absent_primary \<and>
   primary_output ex_platform_absent_primary \<noteq> X_None \<and>
   primary_monitor (snd (init_randr13 insertion_sort ex_platform_absent_primary ex_screen)) = 0 \<and>
   randr13_reports ex_platform_first_off [ex_output_off, ex_output_left, ex_output_right] \<and>
   monitors (snd (init_randr13 insertion_sort ex_platform_first_off ex_screen)) = ex_monitors \<and>
   primary_monitor (snd (init_randr13 insertion_sort ex_platform_first_off ex_screen)) = 0 \<and>
   side_by_side_outputs ex_output_left ex_output_right \<and>
   randr13_reports ex_platform [ex_output_left, ex_output_right] \<and>
   primary_output ex_platform = X_None \<and>
   g_array_sort_ok insertion_sort (collect_monitors [ex_output_left, ex_output_right]) \<and>
   fst (init_randr13 insertion_sort ex_platform ex_screen) \<and>
   primary_monitor (snd (init_randr13 insertion_sort ex_platform ex_screen)) = 0 \<and>
   randr13_reports ex_platform_reversed [ex_output_right, ex_output_left] \<and>
   primary_output ex_platform_reversed = X_None \<and>
   g_array_sort_ok insertion_sort (collect_monitors [ex_output_right, ex_output_left]) \<and>
   fst (init_randr13 insertion_sort ex_platform_reversed ex_screen) \<and>
   primary_monitor (snd (init_randr13 insertion_sort ex_platform_reversed ex_screen)) = 1"
proof -
  have h1: "randr13_reports ex_platform_primary_right [ex_output_left, ex_output_right]"
    "monitors (snd (init_randr13 insertion_sort ex_platform_primary_right ex_screen)) =
       [hd ex_monitors] @ last ex_monitors # []"
    "mon_output (last ex_monitors) = primary_output ex_platform_primary_right"
    "mon_output (hd ex_monitors) \<noteq> primary_output ex_platform_primary_right"
    "\<forall>m' \<in> set [hd ex_monitors]. mon_output m' \<noteq> primary_output ex_platform_primary_right \<and>
       \<not> (primary_output ex_platform_primary_right = X_None \<and> lvds_name m')"
    "length [hd ex_monitors] = 1"
    by code_simp+
  have h2: "randr13_reports ex_platform_panel [ex_output_left, ex_output_panel]"
    "monitors (snd (init_randr13 insertion_sort ex_platform_panel ex_screen)) =
       [hd ex_monitors_panel] @ last ex_monitors_panel # []"
    "primary_output ex_platform_panel = X_None" "lvds_name (last ex_monitors_panel)"
    "mon_output (hd ex_monitors_panel) \<noteq> X_None" "\<not> lvds_name (hd ex_monitors_panel)"
    "\<forall>m' \<in> set [hd ex_monitors_panel]. mon_output m' \<noteq> X_None \<and> \<not> lvds_name m'"
    "length [hd ex_monitors_panel] = 1"
    by code_simp+
  have h3: "randr13_reports ex_platform_absent_primary [ex_output_left, ex_output_panel]"
    "monitors (snd (init_randr13 insertion_sort ex_platform_absent_primary ex_screen)) =
       [] @ hd ex_monitors_panel # [last ex_monitors_panel]"
    "mon_output (hd ex_monitors_panel) = first_output [ex_output_left, ex_output_panel]"
    "mon_output (last ex_monitors_panel) \<noteq> first_output [ex_output_left, ex_output_panel]"
    "mon_output (hd ex_monitors_panel) \<noteq> primary_output ex_platform_absent_primary"
    "mon_output (last ex_monitors_panel) \<noteq> primary_output ex_platform_absent_primary"
    "primary_output ex_platform_absent_primary \<noteq> X_None"
    "\<forall>m' \<in> set ([] @ hd ex_monitors_panel # [last ex_monitors_panel]).
       mon_output m' \<noteq> primary_output ex_platform_absent_primary \<and>
       \<not> (primary_output ex_platform_absent_primary = X_None \<and> lvds_name m')"
    "\<forall>m' \<in> set [last ex_monitors_panel].
       mon_output m' \<noteq> first_output [ex_output_left, ex_output_panel]"
    "length ([] :: GdkX11Monitor list) = 0"
    by code_simp+
  have h4: "randr13_reports ex_platform_first_off [ex_output_off, ex_output_left, ex_output_right]"
    "monitors (snd (init_randr13 insertion_sort ex_platform_first_off ex_screen)) = ex_monitors"
    "\<forall>m' \<in> set (monitors (snd (init_randr13 insertion_sort ex_platform_first_off ex_screen))).
       mon_output m' \<noteq> primary_output ex_platform_first_off \<and>
       \<not> (primary_output ex_platform_first_off = X_None \<and> lvds_name m') \<and>
       mon_output m' \<noteq> first_output [ex_output_off, ex_output_left, ex_output_right]"
    by code_simp+
  have h5: "side_by_side_outputs ex_output_left ex_output_right"
    "randr13_reports ex_platform [ex_output_left, ex_output_right]"
    "primary_output ex_platform = X_None"
    "g_array_sort_ok insertion_sort (collect_monitors [ex_output_left, ex_output_right])"
    "randr13_reports ex_platform_reversed [ex_output_right, ex_output_left]"
    "primary_output ex_platform_reversed = X_None"
    "g_array_sort_ok insertion_sort (collect_monitors [ex_output_right, ex_output_left])"
    by code_simp+
  have r1: "primary_monitor (snd (init_randr13 insertion_sort ex_platform_primary_right ex_screen)) = 1"
    using h1 primary_selection [where p = ex_platform_primary_right
        and outs = "[ex_output_left, ex_output_right]" and srt = insertion_sort
        and s = ex_screen and pre = "[hd ex_monitors]" and m = "last ex_monitors"
        and post = "[]"]
    by metis
  have r2: "primary_monitor (snd (init_randr13 insertion_sort ex_platform_panel ex_screen)) = 1"
    using h2 primary_selection [where p = ex_platform_panel
        and outs = "[ex_output_left, ex_output_panel]" and srt = insertion_sort
        and s = ex_screen and pre = "[hd ex_monitors_panel]" and m = "last ex_monitors_panel"
        and post = "[]"]
    by metis
  have r3: "primary_monitor (snd (init_randr13 insertion_sort ex_platform_absent_primary ex_screen)) = 0"
    using h3 primary_selection [where p = ex_platform_absent_primary
        and outs = "[ex_output_left, ex_output_panel]" and srt = insertion_sort
        and s = ex_screen and pre = "[]" and m = "hd ex_monitors_panel"
        and post = "[last ex_monitors_panel]"]
    by metis
  have r4: "primary_monitor (snd (init_randr13 insertion_sort ex_platform_first_off ex_screen)) = 0"
    using h4 primary_selection [where p = ex_platform_first_off
        and outs = "[ex_output_off, ex_output_left, ex_output_right]" and srt = insertion_sort
        and s = ex_screen]
    by blast
  have e5: "init_randr13 insertion_sort ex_platform ex_screen =
      (True, ex_screen\<lparr>monitors :=
         [monitor_of ex_output_left
            \<lparr>rect_x = 0, rect_y = 0, rect_width = 1920, rect_height = 1080\<rparr>,
          monitor_of ex_output_right
            \<lparr>rect_x = 1920, rect_y = 0, rect_width = 1920, rect_height = 1080\<rparr>],
         primary_monitor := 0\<rparr>)"
    using h5 primary_selection [where p = ex_platform
        and outs = "[ex_output_left, ex_output_right]" and srt = insertion_sort
        and s = ex_screen and oA = ex_output_left and oB = ex_output_right]
    by blast
  have r5: "fst (init_randr13 insertion_sort ex_platform ex_screen) \<and>
      primary_monitor (snd (init_randr13 insertion_sort ex_platform ex_screen)) = 0"
    unfolding e5 by simp
  have e6: "init_randr13 insertion_sort ex_platform_reversed ex_screen =
      (True, ex_screen\<lparr>monitors :=
         [monitor_of ex_output_left
            \<lparr>rect_x = 0, rect_y = 0, rect_width = 1920, rect_height = 1080\<rparr>,
          monitor_of ex_output_right
            \<lparr>rect_x = 1920, rect_y = 0, rect_width = 1920, rect_height = 1080\<rparr>],
         primary_monitor := 1\<rparr>)"
    using h5 primary_selection [where p = ex_platform_reversed
        and outs = "[ex_output_right, ex_output_left]" and srt = insertion_sort
        and s = ex_screen and oA = ex_output_left and oB = ex_output_right]
    by blast
  have r6: "fst (init_randr13 insertion_sort ex_platform_reversed ex_screen) \<and>
      primary_monitor (snd (init_randr13 insertion_sort ex_platform_reversed ex_screen)) = 1"
    unfolding e6 by simp
  show ?thesis
    using h1(1-4) h2(1-6) h3(1-7) h4(1,2) h5 r1 r2 r3 r4 r5 r6 by blast
qed

section \<open>Change detection of the topology\<close>

lemma compare_monitor_iff:
  "compare_monitor m1 m2 \<longleftrightarrow> \<not> monitor_differs m1 m2"
  unfolding compare_monitor_def monitor_differs_def by auto

lemma compare_monitors_loop_iff:
  "length ms1 = length ms2 \<Longrightarrow>
     compare_monitors_loop ms1 ms2 = (\<forall>i < length ms1. compare_monitor (ms1 ! i) (ms2 ! i))"
proof (induction ms1 ms2 rule: list_induct2)
  case Nil
  then show ?case by simp
next
  case (Cons x xs y ys)
  then show ?case by (auto simp: less_Suc_eq_0_disj)
qed

lemma compare_monitors_iff:
  "compare_monitors ms1 ms2 \<longleftrightarrow>
     length ms1 = length ms2 \<and> (\<forall>i < length ms1. \<not> monitor_differs (ms1 ! i) (ms2 ! i))"
  unfolding compare_monitors_def by (simp add: compare_monitors_loop_iff compare_monitor_iff)

lemma process_monitors_change_signal:
  "snd (process_monitors_change srt p s) =
     (if \<not> compare_monitors (monitors s) (monitors (init_multihead srt p (s\<lparr>monitors := []\<rparr>))) \<or>
         primary_monitor (init_multihead srt p (s\<lparr>monitors := []\<rparr>)) \<noteq> primary_monitor s
      then [monitors_changed] else [])"
  by (simp add: process_monitors_change_def Let_def)

lemma monitor_differs_refl [simp]: "\<not> monitor_differs m m"
  by (simp add: monitor_differs_def)

text \<open>
  Claim C9.  A refresh emits "monitors-changed" exactly when the old and the new monitor
  sequences differ in length, or some monitor differs from the new one at its index in
  x, y, width, height, physical width or height, output name (or manufacturer, which no
  discovery method sets), or the primary index differs; otherwise it emits nothing.  In
  particular a rediscovery that changes one monitor in one such field emits it, and one
  that finds the same monitors and primary index does not.
\<close>

theorem monitors_changed_exact:
  "(snd (process_monitors_change srt p s) = [monitors_changed] \<longleftrightarrow>
      length (monitors (init_multihead srt p (s\<lparr>monitors := []\<rparr>))) \<noteq> length (monitors s) \<or>
      (\<exists>i < length (monitors s).
         monitor_differs (monitors s ! i)
           (monitors (init_multihead srt p (s\<lparr>monitors := []\<rparr>)) ! i)) \<or>
      primary_monitor (init_multihead srt p (s\<lparr>monitors := []\<rparr>)) \<noteq> primary_monitor s) \<and>
   (snd (process_monitors_change srt p s) \<noteq> [monitors_changed] \<longrightarrow>
      snd (process_monitors_change srt p s) = []) \<and>
   (i < length (monitors s) \<and>
    monitors (init_multihead srt p (s\<lparr>monitors := []\<rparr>)) = (monitors s)[i := m'] \<and>
    monitor_differs (monitors s ! i) m' \<longrightarrow>
      snd (process_monitors_change srt p s) = [monitors_changed]) \<and>
   (monitors (init_multihead srt p (s\<lparr>monitors := []\<rparr>)) = monitors s \<and>
    primary_monitor (init_multihead srt p (s\<lparr>monitors := []\<rparr>)) = primary_monitor s \<longrightarrow>
      snd (process_monitors_change srt p s) = [])"
proof -
  let ?new = "init_multihead srt p (s\<lparr>monitors := []\<rparr>)"
  have sig: "snd (process_monitors_change srt p s) =
     (if \<not> compare_monitors (monitors s) (monitors ?new) \<or>
         primary_monitor ?new \<noteq> primary_monitor s
      then [monitors_changed] else [])"
    by (rule process_monitors_change_signal)
  have c1: "snd (process_monitors_change srt p s) = [monitors_changed] \<longleftrightarrow>
      length (monitors ?new) \<noteq> length (monitors s) \<or>
      (\<exists>i < length (monitors s). monitor_differs (monitors s ! i) (monitors ?new ! i)) \<or>
      primary_monitor ?new \<noteq> primary_monitor s"
    unfolding sig compare_monitors_iff by auto
  have c2: "snd (process_monitors_change srt p s) \<noteq> [monitors_changed] \<longrightarrow>
      snd (process_monitors_change srt p s) = []"
    unfolding sig by simp
  have c3: "snd (process_monitors_change srt p s) = [monitors_changed]"
    if "i < length (monitors s)" "monitors ?new = (monitors s)[i := m']"
      "monitor_differs (monitors s ! i) m'"
  proof -
    have "monitor_differs (monitors s ! i) (monitors ?new ! i)"
      using that by simp
    then show ?thesis using that(1) c1 by blast
  qed
  have c4: "snd (process_monitors_change srt p s) = []"
    if "monitors ?new = monitors s" "primary_monitor ?new = primary_monitor s"
    unfolding sig compare_monitors_iff using that by simp
  show ?thesis using c1 c2 c3 c4 by blast
qed

theorem monitors_changed_exact_witness:
  "0 < length (monitors ex_screen_stale) \<and>
   monitors (init_multihead insertion_sort ex_platform (ex_screen_stale\<lparr>monitors := []\<rparr>)) =
     (monitors ex_screen_stale)[0 := monitors ex_screen_found ! 0] \<and>
   monitor_differs (monitors ex_screen_stale ! 0) (monitors ex_screen_found ! 0) \<and>
   snd (process_monitors_change insertion_sort ex_platform ex_screen_stale) = [monitors_changed] \<and>
   snd (process_monitors_change insertion_sort ex_platform ex_screen_found) = []"
proof -
  have h1: "0 < length (monitors ex_screen_stale)" by code_simp
  have h2: "monitors (init_multihead insertion_sort ex_platform
               (ex_screen_stale\<lparr>monitors := []\<rparr>)) =
            (monitors ex_screen_stale)[0 := monitors ex_screen_found ! 0]"
    by code_simp
  have h3: "monitor_differs (monitors ex_screen_stale ! 0) (monitors ex_screen_found ! 0)"
    by code_simp
  have h4: "monitors (init_multihead insertion_sort ex_platform
               (ex_screen_found\<lparr>monitors := []\<rparr>)) = monitors ex_screen_found"
    "primary_monitor (init_multihead insertion_sort ex_platform
               (ex_screen_found\<lparr>monitors := []\<rparr>)) = primary_monitor ex_screen_found"
    by code_simp+
  show ?thesis
    using monitors_changed_exact [where srt = insertion_sort and p = ex_platform
        and s = ex_screen_stale and i = 0 and m' = "monitors ex_screen_found ! 0"]
      monitors_changed_exact [where srt = insertion_sort and p = ex_platform
        and s = ex_screen_found and i = 0 and m' = "monitors ex_screen_found ! 0"]
      h1 h2 h3 h4
    by blast
qed

section \<open>Statements about the window state machine\<close>

text \<open>
  Claim C3.  On a pass that runs with \<open>configure_notify_received\<close> set, if the request
  computed now differs in size or in position from the last one recorded (the two change
  bits of the pass), the pass ends with the geometry record as it was before, so the last
  geometry, flags and configure request keep their values; it clears
  \<open>configure_notify_received\<close>, queues a resize without redraw, and makes no platform
  move, resize or move-resize call.
\<close>

theorem move_resize_after_notify_postpones:
  assumes "configure_notify_received window"
    and "configure_request_size_changed (move_resize_plan hb env window) \<or>
         configure_request_pos_changed (move_resize_plan hb env window)"
  shows "geometry_info (fst (gtk_window_move_resize hb env window)) = Some (the_info window) \<and>
         last_info (the_info (fst (gtk_window_move_resize hb env window))) =
           last_info (the_info window) \<and>
         \<not> configure_notify_received (fst (gtk_window_move_resize hb env window)) \<and>
         gtk_widget_queue_resize_no_redraw \<in> set (snd (gtk_window_move_resize hb env window)) \<and>
         \<not> list_ex is_configure_request (snd (gtk_window_move_resize hb env window))"
  using move_resize_notify [OF assms] by simp

theorem move_resize_after_notify_postpones_witness:
  "configure_notify_received
     (fst (gtk_window_configure_event None ex_window
        \<lparr>event_x = 0, event_y = 0, event_width = 120, event_height = 120\<rparr>)) \<and>
   configure_request_size_changed (move_resize_plan gdk_hint_bits ex_env
     (fst (gtk_window_configure_event None ex_window
        \<lparr>event_x = 0, event_y = 0, event_width = 120, event_height = 120\<rparr>))) \<and>
   geometry_info (fst (gtk_window_move_resize gdk_hint_bits ex_env
     (fst (gtk_window_configure_event None ex_window
        \<lparr>event_x = 0, event_y = 0, event_width = 120, event_height = 120\<rparr>)))) = Some ex_info \<and>
   \<not> list_ex is_configure_request (snd (gtk_window_move_resize gdk_hint_bits ex_env
     (fst (gtk_window_configure_event None ex_window
        \<lparr>event_x = 0, event_y = 0, event_width = 120, event_height = 120\<rparr>))))"
proof -
  let ?w = "fst (gtk_window_configure_event None ex_window
        \<lparr>event_x = 0, event_y = 0, event_width = 120, event_height = 120\<rparr>)"
  have h1: "configure_notify_received ?w" by code_simp
  have h2: "configure_request_size_changed (move_resize_plan gdk_hint_bits ex_env ?w) \<or>
            configure_request_pos_changed (move_resize_plan gdk_hint_bits ex_env ?w)"
    by code_simp
  have h3: "configure_request_size_changed (move_resize_plan gdk_hint_bits ex_env ?w)"
    by code_simp
  have h4: "the_info ?w = ex_info" by code_simp
  show ?thesis
    using move_resize_after_notify_postpones [OF h1 h2] h1 h3 h4 by simp
qed

text \<open>
  Claim C5.  For a window on which nothing else is pending, a \<open>gtk_window_resize\<close> to the
  current allocated width and height makes the next pass send no platform move, resize
  or move-resize call.  The statement does not need the in-flight counter to be zero.
\<close>

theorem resize_to_current_size_sends_nothing:
  assumes "no_other_change_pending hb env window"
  shows "\<not> list_ex is_configure_request
           (snd (gtk_window_move_resize hb env
              (fst (gtk_window_resize window (rect_width (allocation window))
                      (rect_height (allocation window))))))"
  using resize_to_allocation_plan [OF assms] move_resize_configure_request_only_if by blast

theorem resize_to_current_size_sends_nothing_witness:
  "no_other_change_pending gdk_hint_bits ex_env ex_window \<and>
   configure_request_count ex_window = 0 \<and>
   rect_width (allocation ex_window) = 100 \<and> rect_height (allocation ex_window) = 100 \<and>
   \<not> list_ex is_configure_request
       (snd (gtk_window_move_resize gdk_hint_bits ex_env (fst (gtk_window_resize ex_window 100 100))))"
proof -
  have h: "no_other_change_pending gdk_hint_bits ex_env ex_window" by code_simp
  have a: "rect_width (allocation ex_window) = 100" "rect_height (allocation ex_window) = 100"
    "configure_request_count ex_window = 0"
    by (simp_all add: ex_window_def)
  show ?thesis
    using resize_to_current_size_sends_nothing [OF h] h a by simp
qed

lemma one_sless_200 [simp]: "(1 :: gint) <s 200"
  by (simp add: word_sless_alt)



lemma resize_window:
  assumes "0 <s w" "0 <s h"
  shows "fst (gtk_window_resize window w h) =
     window\<lparr>geometry_info :=
       Some ((the_info window)\<lparr>resize_width := w, resize_height := h,
                                resize_is_geometry := False\<rparr>)\<rparr>"
  using assms by (simp add: gtk_window_resize_def Let_def)

lemma resize_request_size:
  assumes "0 <s w" "0 <s h"
  shows "gtk_window_compute_configure_request_size hb env
           (fst (gtk_window_resize window w h)) g f = (w, h)"
  using assms
  by (simp add: resize_window gtk_window_compute_configure_request_size_def G_MAX_pos
      split: prod.splits)

lemma plan_size:
  "(rect_width (new_request (move_resize_plan hb env window)),
    rect_height (new_request (move_resize_plan hb env window))) =
   (rect_width (fst (gtk_window_compute_configure_request hb env
                       (snd (gtk_window_get_geometry_info window True)))),
    rect_height (fst (gtk_window_compute_configure_request hb env
                       (snd (gtk_window_get_geometry_info window True)))))"
  by (simp add: move_resize_plan_def Let_def split: prod.splits)

lemma plan_size_changed:
  "configure_request_size_changed (move_resize_plan hb env window) \<longleftrightarrow>
   (rect_width (configure_request (last_info (the_info window))),
    rect_height (configure_request (last_info (the_info window)))) \<noteq>
   (rect_width (new_request (move_resize_plan hb env window)),
    rect_height (new_request (move_resize_plan hb env window)))"
  by (simp add: move_resize_plan_def get_geometry_info_create Let_def split: prod.splits)

lemma request_size:
  "(rect_width (fst (gtk_window_compute_configure_request hb env window)),
    rect_height (fst (gtk_window_compute_configure_request hb env window))) =
   gdk_window_constrain_size env
     (fst (gtk_window_compute_hints hb env window))
     (snd (gtk_window_compute_hints hb env window))
     (fst (gtk_window_compute_configure_request_size hb env window
             (fst (gtk_window_compute_hints hb env window))
             (snd (gtk_window_compute_hints hb env window))))
     (snd (gtk_window_compute_configure_request_size hb env window
             (fst (gtk_window_compute_hints hb env window))
             (snd (gtk_window_compute_hints hb env window))))"
  by (simp add: gtk_window_compute_configure_request_def Let_def split: prod.splits)

lemma resize_plan_size:
  assumes "0 <s w" "0 <s h"
  shows "(rect_width (new_request (move_resize_plan hb env (fst (gtk_window_resize window w h)))),
          rect_height (new_request (move_resize_plan hb env (fst (gtk_window_resize window w h))))) =
         gdk_window_constrain_size env
           (fst (gtk_window_compute_hints hb env (fst (gtk_window_resize window w h))))
           (snd (gtk_window_compute_hints hb env (fst (gtk_window_resize window w h)))) w h"
proof -
  let ?w' = "fst (gtk_window_resize window w h)"
  have "snd (gtk_window_get_geometry_info ?w' True) = ?w'"
    using assms by (simp add: resize_window gtk_window_get_geometry_info_def)
  then show ?thesis
    unfolding plan_size request_size by (simp add: resize_request_size [OF assms])
qed

lemma resize_fields:
  assumes "0 <s w" "0 <s h"
  shows "configure_notify_received (fst (gtk_window_resize window w h)) =
           configure_notify_received window"
    and "allocation (fst (gtk_window_resize window w h)) = allocation window"
    and "window_type (fst (gtk_window_resize window w h)) = window_type window"
    and "last_info (the_info (fst (gtk_window_resize window w h))) = last_info (the_info window)"
  using assms by (simp_all add: resize_window)

text \<open>
  Claim C1, as stated, fails.  The window has sent a request for 200x200 and waits for its
  notification (counter 1, nothing received); \<open>gtk_window_resize (300, 300)\<close> arrives;
  the next pass sends a second resize request and the counter becomes 2.
\<close>

theorem backpressure_counterexample:
  "0 < configure_request_count ex_window_resized_again \<and>
   \<not> configure_notify_received ex_window_resized_again \<and>
   list_ex is_size_request
     (snd (gtk_window_move_resize gdk_hint_bits ex_env
             (fst (gtk_window_resize ex_window 200 200)))) \<and>
   list_ex is_size_request
     (snd (gtk_window_move_resize gdk_hint_bits ex_env ex_window_resized_again)) \<and>
   configure_request_count
     (fst (gtk_window_move_resize gdk_hint_bits ex_env ex_window_resized_again)) = 2"
  by code_simp

text \<open>
  Claim C1, as amended.  The pass does not read the in-flight counter: the calls it makes
  are the same for every value of the counter.  It sends a resize or move-resize request
  exactly when no configure-notify is recorded, the planned size or the hints differ
  from those last recorded (or the position hint is being turned on), and the planned
  size differs from the current allocation; it then adds one to the counter unless the
  window is a popup, and in every other case leaves the counter as it is.  So, whatever
  the counter, a pass sends no such request when the planned size and hints are those
  last recorded and the position hint is not being turned on, and none when the planned
  size is the current allocation.  \<open>gtk_window_resize\<close> with a positive width and
  height does not touch the counter and makes the planned size of the next pass that
  width and height as constrained by the hints; when no configure-notify is recorded and
  this size differs from the size last requested and from the current allocation, the
  next pass does send a resize or move-resize request and, for a window that is not a
  popup, adds one to the counter, whatever the counter was.
\<close>

theorem move_resize_resends_only_on_change:
  "snd (gtk_window_move_resize hb env (window\<lparr>configure_request_count := c\<rparr>)) =
     snd (gtk_window_move_resize hb env window) \<and>
   (list_ex is_size_request (snd (gtk_window_move_resize hb env window)) \<longleftrightarrow>
      \<not> configure_notify_received window \<and>
      (configure_request_size_changed (move_resize_plan hb env window) \<or>
       hints_changed (move_resize_plan hb env window) \<or>
       set_position_hint hb env window) \<and>
      (rect_width (allocation window) \<noteq>
         rect_width (new_request (move_resize_plan hb env window)) \<or>
       rect_height (allocation window) \<noteq>
         rect_height (new_request (move_resize_plan hb env window)))) \<and>
   configure_request_count (fst (gtk_window_move_resize hb env window)) =
     (if list_ex is_size_request (snd (gtk_window_move_resize hb env window)) \<and>
         window_type window \<noteq> GTK_WINDOW_POPUP
      then configure_request_count window + 1
      else configure_request_count window) \<and>
   (\<not> configure_request_size_changed (move_resize_plan hb env window) \<and>
    \<not> hints_changed (move_resize_plan hb env window) \<and>
    \<not> set_position_hint hb env window \<longrightarrow>
      \<not> list_ex is_size_request (snd (gtk_window_move_resize hb env window))) \<and>
   (rect_width (new_request (move_resize_plan hb env window)) = rect_width (allocation window) \<and>
    rect_height (new_request (move_resize_plan hb env window)) = rect_height (allocation window) \<longrightarrow>
      \<not> list_ex is_size_request (snd (gtk_window_move_resize hb env window))) \<and>
   configure_request_count (fst (gtk_window_resize window w h)) =
     configure_request_count window \<and>
   (0 <s w \<and> 0 <s h \<longrightarrow>
      (rect_width (new_request (move_resize_plan hb env (fst (gtk_window_resize window w h)))),
       rect_height (new_request (move_resize_plan hb env (fst (gtk_window_resize window w h))))) =
      gdk_window_constrain_size env
        (fst (gtk_window_compute_hints hb env (fst (gtk_window_resize window w h))))
        (snd (gtk_window_compute_hints hb env (fst (gtk_window_resize window w h)))) w h) \<and>
   (0 <s w \<and> 0 <s h \<and> \<not> configure_notify_received window \<and>
    gdk_window_constrain_size env
      (fst (gtk_window_compute_hints hb env (fst (gtk_window_resize window w h))))
      (snd (gtk_window_compute_hints hb env (fst (gtk_window_resize window w h)))) w h \<noteq>
      (rect_width (configure_request (last_info (the_info window))),
       rect_height (configure_request (last_info (the_info window)))) \<and>
    gdk_window_constrain_size env
      (fst (gtk_window_compute_hints hb env (fst (gtk_window_resize window w h))))
      (snd (gtk_window_compute_hints hb env (fst (gtk_window_resize window w h)))) w h \<noteq>
      (rect_width (allocation window), rect_height (allocation window)) \<longrightarrow>
      list_ex is_size_request
        (snd (gtk_window_move_resize hb env (fst (gtk_window_resize window w h)))) \<and>
      (window_type window \<noteq> GTK_WINDOW_POPUP \<longrightarrow>
         configure_request_count
           (fst (gtk_window_move_resize hb env (fst (gtk_window_resize window w h)))) =
         configure_request_count window + 1))"
proof -
  let ?w' = "fst (gtk_window_resize window w h)"
  let ?cs = "gdk_window_constrain_size env
      (fst (gtk_window_compute_hints hb env ?w')) (snd (gtk_window_compute_hints hb env ?w')) w h"
  have base: "snd (gtk_window_move_resize hb env (window\<lparr>configure_request_count := c\<rparr>)) =
     snd (gtk_window_move_resize hb env window) \<and>
   (list_ex is_size_request (snd (gtk_window_move_resize hb env window)) \<longleftrightarrow>
      \<not> configure_notify_received window \<and>
      (configure_request_size_changed (move_resize_plan hb env window) \<or>
       hints_changed (move_resize_plan hb env window) \<or>
       set_position_hint hb env window) \<and>
      (rect_width (allocation window) \<noteq>
         rect_width (new_request (move_resize_plan hb env window)) \<or>
       rect_height (allocation window) \<noteq>
         rect_height (new_request (move_resize_plan hb env window)))) \<and>
   configure_request_count (fst (gtk_window_move_resize hb env window)) =
     (if list_ex is_size_request (snd (gtk_window_move_resize hb env window)) \<and>
         window_type window \<noteq> GTK_WINDOW_POPUP
      then configure_request_count window + 1
      else configure_request_count window) \<and>
   (\<not> configure_request_size_changed (move_resize_plan hb env window) \<and>
    \<not> hints_changed (move_resize_plan hb env window) \<and>
    \<not> set_position_hint hb env window \<longrightarrow>
      \<not> list_ex is_size_request (snd (gtk_window_move_resize hb env window))) \<and>
   (rect_width (new_request (move_resize_plan hb env window)) = rect_width (allocation window) \<and>
    rect_height (new_request (move_resize_plan hb env window)) = rect_height (allocation window) \<longrightarrow>
      \<not> list_ex is_size_request (snd (gtk_window_move_resize hb env window))) \<and>
   configure_request_count (fst (gtk_window_resize window w h)) =
     configure_request_count window"
    using move_resize_effects_count [of hb env c window]
      move_resize_size_request_iff [of hb env window]
      move_resize_count [of hb env window] resize_count [of window w h]
    by simp
  have again: "list_ex is_size_request (snd (gtk_window_move_resize hb env ?w')) \<and>
      (window_type window \<noteq> GTK_WINDOW_POPUP \<longrightarrow>
         configure_request_count (fst (gtk_window_move_resize hb env ?w')) =
         configure_request_count window + 1)"
    if pos: "0 <s w" "0 <s h" and nn: "\<not> configure_notify_received window"
      and l: "?cs \<noteq> (rect_width (configure_request (last_info (the_info window))),
                      rect_height (configure_request (last_info (the_info window))))"
      and a: "?cs \<noteq> (rect_width (allocation window), rect_height (allocation window))"
  proof -
    note ps = resize_plan_size [OF pos, of hb env window]
    have ch: "configure_request_size_changed (move_resize_plan hb env ?w')"
      unfolding plan_size_changed ps resize_fields [OF pos] using l by simp
    have al: "rect_width (allocation ?w') \<noteq> rect_width (new_request (move_resize_plan hb env ?w')) \<or>
        rect_height (allocation ?w') \<noteq> rect_height (new_request (move_resize_plan hb env ?w'))"
      using a ps unfolding resize_fields [OF pos] by (metis prod.inject)
    have sent: "list_ex is_size_request (snd (gtk_window_move_resize hb env ?w'))"
      unfolding move_resize_size_request_iff using ch al nn
      by (simp add: resize_fields [OF pos])
    then show ?thesis
      unfolding move_resize_count [of hb env ?w']
      by (simp add: resize_fields [OF pos] resize_count)
  qed
  show ?thesis
    using base resize_plan_size [of w h hb env window] again by blast
qed

theorem move_resize_resends_only_on_change_witness:
  "0 < configure_request_count ex_window_sent \<and>
   \<not> configure_notify_received ex_window_sent \<and>
   window_type ex_window_sent \<noteq> GTK_WINDOW_POPUP \<and>
   rect_width (new_request (move_resize_plan gdk_hint_bits ex_env ex_window_sent)) =
     rect_width (allocation ex_window_sent) \<and>
   rect_height (new_request (move_resize_plan gdk_hint_bits ex_env ex_window_sent)) =
     rect_height (allocation ex_window_sent) \<and>
   \<not> list_ex is_size_request (snd (gtk_window_move_resize gdk_hint_bits ex_env ex_window_sent)) \<and>
   configure_request_count (fst (gtk_window_move_resize gdk_hint_bits ex_env ex_window_sent)) =
     configure_request_count ex_window_sent \<and>
   \<not> configure_request_size_changed (move_resize_plan gdk_hint_bits ex_env ex_window) \<and>
   \<not> hints_changed (move_resize_plan gdk_hint_bits ex_env ex_window) \<and>
   \<not> set_position_hint gdk_hint_bits ex_env ex_window \<and>
   \<not> list_ex is_size_request (snd (gtk_window_move_resize gdk_hint_bits ex_env ex_window)) \<and>
   (0 :: gint) <s 300 \<and>
   gdk_window_constrain_size ex_env
     (fst (gtk_window_compute_hints gdk_hint_bits ex_env (fst (gtk_window_resize ex_window_sent 300 300))))
     (snd (gtk_window_compute_hints gdk_hint_bits ex_env (fst (gtk_window_resize ex_window_sent 300 300))))
     300 300 = (300, 300) \<and>
   (rect_width (configure_request (last_info (the_info ex_window_sent))),
    rect_height (configure_request (last_info (the_info ex_window_sent)))) = (200, 200) \<and>
   (rect_width (allocation ex_window_sent), rect_height (allocation ex_window_sent)) = (100, 100) \<and>
   (rect_width (new_request (move_resize_plan gdk_hint_bits ex_env
                               (fst (gtk_window_resize ex_window_sent 300 300)))),
    rect_height (new_request (move_resize_plan gdk_hint_bits ex_env
                                (fst (gtk_window_resize ex_window_sent 300 300))))) = (300, 300) \<and>
   list_ex is_size_request
     (snd (gtk_window_move_resize gdk_hint_bits ex_env
             (fst (gtk_window_resize ex_window_sent 300 300)))) \<and>
   configure_request_count
     (fst (gtk_window_move_resize gdk_hint_bits ex_env
             (fst (gtk_window_resize ex_window_sent 300 300)))) =
     configure_request_count ex_window_sent + 1"
proof -
  have h: "0 < configure_request_count ex_window_sent"
    "\<not> configure_notify_received ex_window_sent"
    "window_type ex_window_sent \<noteq> GTK_WINDOW_POPUP"
    "rect_width (new_request (move_resize_plan gdk_hint_bits ex_env ex_window_sent)) =
       rect_width (allocation ex_window_sent)"
    "rect_height (new_request (move_resize_plan gdk_hint_bits ex_env ex_window_sent)) =
       rect_height (allocation ex_window_sent)"
    "\<not> configure_request_size_changed (move_resize_plan gdk_hint_bits ex_env ex_window)"
    "\<not> hints_changed (move_resize_plan gdk_hint_bits ex_env ex_window)"
    "\<not> set_position_hint gdk_hint_bits ex_env ex_window"
    "(0 :: gint) <s 300"
    by code_simp+
  have k: "gdk_window_constrain_size ex_env
       (fst (gtk_window_compute_hints gdk_hint_bits ex_env (fst (gtk_window_resize ex_window_sent 300 300))))
       (snd (gtk_window_compute_hints gdk_hint_bits ex_env (fst (gtk_window_resize ex_window_sent 300 300))))
       300 300 = (300, 300)"
    "(rect_width (configure_request (last_info (the_info ex_window_sent))),
      rect_height (configure_request (last_info (the_info ex_window_sent)))) = (200, 200)"
    "(rect_width (allocation ex_window_sent), rect_height (allocation ex_window_sent)) = (100, 100)"
    "((300, 300) :: gint \<times> gint) \<noteq> (200, 200)" "((300, 300) :: gint \<times> gint) \<noteq> (100, 100)"
    by code_simp+
  have r1: "\<not> list_ex is_size_request (snd (gtk_window_move_resize gdk_hint_bits ex_env ex_window_sent)) \<and>
      configure_request_count (fst (gtk_window_move_resize gdk_hint_bits ex_env ex_window_sent)) =
        configure_request_count ex_window_sent"
    using h(4,5) move_resize_resends_only_on_change
        [where hb = gdk_hint_bits and env = ex_env and window = ex_window_sent]
    by presburger
  have r2: "\<not> list_ex is_size_request (snd (gtk_window_move_resize gdk_hint_bits ex_env ex_window))"
    using h(6,7,8) move_resize_resends_only_on_change
        [where hb = gdk_hint_bits and env = ex_env and window = ex_window]
    by blast
  have r3: "(rect_width (new_request (move_resize_plan gdk_hint_bits ex_env
                               (fst (gtk_window_resize ex_window_sent 300 300)))),
      rect_height (new_request (move_resize_plan gdk_hint_bits ex_env
                                (fst (gtk_window_resize ex_window_sent 300 300))))) = (300, 300) \<and>
     list_ex is_size_request
       (snd (gtk_window_move_resize gdk_hint_bits ex_env
               (fst (gtk_window_resize ex_window_sent 300 300)))) \<and>
     configure_request_count
       (fst (gtk_window_move_resize gdk_hint_bits ex_env
               (fst (gtk_window_resize ex_window_sent 300 300)))) =
       configure_request_count ex_window_sent + 1"
    using h(1,2,3,9) k move_resize_resends_only_on_change
        [where hb = gdk_hint_bits and env = ex_env and window = ex_window_sent
          and w = 300 and h = 300]
    by metis
  show ?thesis
    using h k(1,2,3) r1 r2 r3 by blast
qed

text \<open>
  Claim C4, as stated, fails: a move-only request to a managed window is an outgoing
  request that leaves the counter as it is.  With the position policy switched to
  \<open>GTK_WIN_POS_CENTER_ALWAYS\<close> the pass updates the hints and calls \<open>gdk_window_move\<close>.
\<close>

theorem move_only_request_counterexample:
  "window_type ex_window_center = GTK_WINDOW_TOPLEVEL \<and>
   snd (gtk_window_move_resize gdk_hint_bits ex_env ex_window_center) =
     [gdk_window_set_geometry_hints ex_geometry 75, gdk_window_move 910 490,
      gtk_container_resize_children] \<and>
   configure_request_count (fst (gtk_window_move_resize gdk_hint_bits ex_env ex_window_center)) =
     configure_request_count ex_window_center"
  by code_simp

text \<open>
  Claim C4, as amended.  A pass adds one (modulo \<open>2^16\<close>) to the in-flight counter exactly
  when it sends a resize or move-resize request and the window is not a popup, and leaves
  it unchanged otherwise, also when it sends a move-only request.  A configure-notify of
  a toplevel window takes one off when the counter is positive and leaves it at zero
  otherwise; for an embedded window it leaves the counter unchanged, as
  \<open>gtk_window_resize\<close> does.  The counter is never negative.
\<close>

theorem configure_request_count_steps:
  "configure_request_count (fst (gtk_window_move_resize hb env window)) =
     (if list_ex is_size_request (snd (gtk_window_move_resize hb env window)) \<and>
         window_type window \<noteq> GTK_WINDOW_POPUP
      then configure_request_count window + 1
      else configure_request_count window) \<and>
   (toplevel window \<longrightarrow>
      uint (configure_request_count (fst (gtk_window_configure_event ph window event))) =
        max 0 (uint (configure_request_count window) - 1)) \<and>
   (\<not> toplevel window \<longrightarrow>
      configure_request_count (fst (gtk_window_configure_event ph window event)) =
        configure_request_count window) \<and>
   configure_request_count (fst (gtk_window_resize window w h)) = configure_request_count window \<and>
   0 \<le> uint (configure_request_count window)"
  using move_resize_count [of hb env window] configure_event_count [of window ph event]
    configure_event_count_embedded [of window ph event] resize_count [of window w h]
  by simp

theorem configure_request_count_steps_witness:
  "toplevel ex_window_sent \<and> window_type ex_window \<noteq> GTK_WINDOW_POPUP \<and>
   configure_request_count ex_window = 0 \<and>
   configure_request_count ex_window_sent = 1 \<and>
   uint (configure_request_count (fst (gtk_window_configure_event None ex_window_sent
      \<lparr>event_x = 0, event_y = 0, event_width = 200, event_height = 200\<rparr>))) = 0 \<and>
   uint (configure_request_count (fst (gtk_window_configure_event None ex_window
      \<lparr>event_x = 0, event_y = 0, event_width = 200, event_height = 200\<rparr>))) = 0"
proof -
  have h: "toplevel ex_window_sent" "toplevel ex_window"
    "window_type ex_window \<noteq> GTK_WINDOW_POPUP"
    "configure_request_count ex_window = 0" "configure_request_count ex_window_sent = 1"
    by code_simp+
  show ?thesis
    using configure_request_count_steps [of gdk_hint_bits ex_env ex_window_sent None
        "\<lparr>event_x = 0, event_y = 0, event_width = 200, event_height = 200\<rparr>" 1 1]
      configure_request_count_steps [of gdk_hint_bits ex_env ex_window None
        "\<lparr>event_x = 0, event_y = 0, event_width = 200, event_height = 200\<rparr>" 1 1]
      h
    by simp
qed


end
